theory Spec2Isabelle
  imports Main
begin

section \<open>Detection evaluation: the match tally\<close>

text \<open>
  The module \<^verbatim>\<open>fiftyone/utils/eval/detection.py\<close> orchestrates the evaluation of
  predicted detections against ground truth detections. A matching strategy yields, for
  each image, a list of \<^verbatim>\<open>(gt_label, pred_label)\<close> pairs in which either side may be
  \<^verbatim>\<open>None\<close>. Labels are Python strings, an absent label is \<open>None\<close>, and the counts are
  Python integers.
\<close>

type_synonym label = string

type_synonym match = "label option \<times> label option"

text \<open>
  \<^verbatim>\<open>_tally_matches\<close> (lines 243 to 255). The body of the \<^verbatim>\<open>for\<close> loop is one step of
  \<open>tally_loop\<close>; the three counters are the loop state, and the branches are taken in
  the order of the source: first \<^verbatim>\<open>gt_label is None\<close>, then \<^verbatim>\<open>pred_label is None\<close>,
  then the \<^verbatim>\<open>else\<close>. A leading underscore is not a legal start of a name here, so
  the function is called \<open>tally_matches\<close>.
\<close>

fun tally_loop :: "match list \<Rightarrow> int \<times> int \<times> int \<Rightarrow> int \<times> int \<times> int" where
  "tally_loop [] (tp, fp, fn) = (tp, fp, fn)"
| "tally_loop ((gt_label, pred_label) # matches) (tp, fp, fn) =
     (if gt_label = None then tally_loop matches (tp, fp + 1, fn)
      else if pred_label = None then tally_loop matches (tp, fp, fn + 1)
      else tally_loop matches (tp + 1, fp, fn))"

definition tally_matches :: "match list \<Rightarrow> int \<times> int \<times> int" where
  "tally_matches matches = tally_loop matches (0, 0, 0)"

text \<open>The three kinds of pair that the loop body tells apart.\<close>

definition is_tp :: "match \<Rightarrow> bool" where
  "is_tp m = (fst m \<noteq> None \<and> snd m \<noteq> None)"

definition is_fp :: "match \<Rightarrow> bool" where
  "is_fp m = (fst m = None)"

definition is_fn :: "match \<Rightarrow> bool" where
  "is_fn m = (fst m \<noteq> None \<and> snd m = None)"

section \<open>Errors\<close>

text \<open>
  Every \<^verbatim>\<open>raise\<close> is a value. \<open>ValueError\<close> is raised by \<^verbatim>\<open>_get_default_config\<close> and by
  the tuple unpacking in \<^verbatim>\<open>DetectionResults.__init__\<close>, \<open>NotImplementedError\<close> by the base
  class's \<^verbatim>\<open>evaluate_image\<close>, \<open>AttributeError\<close> and \<open>TypeError\<close> by the built-in
  \<^verbatim>\<open>setattr\<close> (they carry the name of the attribute). \<open>KeyError\<close> and \<open>NotFoundError\<close>
  belong to the collection store, whose code is outside this module. A computation that
  touches the collection
  returns its outcome together with the collection as it then is, so that what was
  saved before an error stays saved.
\<close>

datatype error =
    ValueError string
  | NotImplementedError string
  | KeyError string
  | NotFoundError string
  | AttributeError string
  | TypeError string

section \<open>Method registry and configuration\<close>

text \<open>
  A configuration is a Python object: its class and its instance dictionary.
\<close>

record 'v config =
  config_class :: string
  attrs :: "string \<rightharpoonup> 'v"

text \<open>
  The configuration classes (\<^verbatim>\<open>EvaluationConfig\<close>, \<^verbatim>\<open>COCOEvaluationConfig\<close>) are in modules
  that are not part of these sources, so what \<^verbatim>\<open>setattr\<close> needs to know of them is a
  parameter: which names a class refuses to bind (a property without a setter, or a
  name outside the slots of a class whose instances have no dictionary), which values
  are classes that an instance can be rebound to, and which values are dictionaries.
\<close>

record 'v object_model =
  rejects :: "string \<Rightarrow> string \<Rightarrow> bool"
  as_class :: "'v \<Rightarrow> string option"
  as_dict :: "'v \<Rightarrow> (string \<times> 'v) list option"

text \<open>
  The built-in \<^verbatim>\<open>setattr(config, k, v)\<close> of line 229, as \<^verbatim>\<open>object.__setattr__\<close> performs
  it. The name \<^verbatim>\<open>__class__\<close> rebinds the class of the object when the value is a class
  and raises a \<^verbatim>\<open>TypeError\<close> otherwise; the name \<^verbatim>\<open>__dict__\<close> replaces the instance
  dictionary when the value is a dictionary and raises a \<^verbatim>\<open>TypeError\<close> otherwise; a name
  that the class refuses raises an \<^verbatim>\<open>AttributeError\<close>; every other name is bound in the
  instance dictionary, whether or not the configuration has an option of that name.
\<close>

definition setattr :: "'v object_model \<Rightarrow> 'v config \<Rightarrow> string \<Rightarrow> 'v \<Rightarrow> error + 'v config" where
  "setattr om config k v =
     (if k = ''__class__'' then
        (case as_class om v of
           None \<Rightarrow> Inl (TypeError k)
         | Some c \<Rightarrow> Inr (config\<lparr>config_class := c\<rparr>))
      else if k = ''__dict__'' then
        (case as_dict om v of
           None \<Rightarrow> Inl (TypeError k)
         | Some d \<Rightarrow> Inr (config\<lparr>attrs := map_of d\<rparr>))
      else if rejects om (config_class config) k then Inl (AttributeError k)
      else Inr (config\<lparr>attrs := (attrs config)(k \<mapsto> v)\<rparr>))"

text \<open>\<^verbatim>\<open>list_detection_methods\<close> (lines 61 to 68).\<close>

definition list_detection_methods :: "string list" where
  "list_detection_methods = [''coco'']"

text \<open>
  \<^verbatim>\<open>_get_default_config\<close> (lines 234 to 240). The class \<^verbatim>\<open>COCOEvaluationConfig\<close> lives in
  a module that is not part of these sources, so the object its constructor returns is
  the parameter \<open>coco\<close>. The message is \<^verbatim>\<open>"Unsupported evaluation method '%s'" % method\<close>.
\<close>

definition get_default_config :: "'v config \<Rightarrow> string \<Rightarrow> error + 'v config" where
  "get_default_config coco method =
     (if method = ''coco'' then Inr coco
      else Inl (ValueError (''Unsupported evaluation method '' @ [CHR 0x27] @ method @ [CHR 0x27])))"

text \<open>
  \<^verbatim>\<open>_parse_config\<close> (lines 221 to 231). \<^verbatim>\<open>kwargs\<close> is a Python dictionary: its items in
  insertion order, with pairwise distinct keys. The loop binds them one by one, on the
  object that the earlier bindings left; the first \<^verbatim>\<open>setattr\<close> that raises ends the
  resolution with its error.
\<close>

fun apply_overrides ::
  "'v object_model \<Rightarrow> 'v config \<Rightarrow> (string \<times> 'v) list \<Rightarrow> error + 'v config" where
  "apply_overrides om config [] = Inr config"
| "apply_overrides om config ((k, v) # kwargs) =
     (case setattr om config k v of
        Inl e \<Rightarrow> Inl e
      | Inr config' \<Rightarrow> apply_overrides om config' kwargs)"

definition parse_config ::
  "'v object_model \<Rightarrow> 'v config \<Rightarrow> 'v config option \<Rightarrow> string option \<Rightarrow> (string \<times> 'v) list \<Rightarrow>
   error + 'v config" where
  "parse_config om coco config method kwargs =
     (case (case config of
              None \<Rightarrow> get_default_config coco (case method of None \<Rightarrow> ''coco'' | Some m \<Rightarrow> m)
            | Some c \<Rightarrow> Inr c) of
        Inl e \<Rightarrow> Inl e
      | Inr c \<Rightarrow> apply_overrides om c kwargs)"

section \<open>The matching strategy\<close>

text \<open>
  A field of a sample or of a frame holds a detections object (opaque here, type \<open>'d\<close>)
  or one of the integer counts this module writes. A strategy is the method
  \<^verbatim>\<open>evaluate_image(gts, preds, eval_key)\<close> of the object that \<^verbatim>\<open>config.build()\<close> returns:
  it yields the list of matches of one image or raises. What a strategy writes on the
  detection objects it is given (the per-detection id and IoU fields) belongs to the
  strategy, not to this module, and is not modelled.
\<close>

datatype 'd field_value = IntValue int | Detections 'd

type_synonym 'd strategy =
  "'d field_value \<Rightarrow> 'd field_value \<Rightarrow> string option \<Rightarrow> error + match list"

text \<open>\<^verbatim>\<open>DetectionEvaluationMethod.evaluate_image\<close> (lines 45 to 58), the base class's method.\<close>

definition DetectionEvaluationMethod_evaluate_image :: "'d strategy" where
  "DetectionEvaluationMethod_evaluate_image gts preds eval_key =
     Inl (NotImplementedError ''subclass must implement evaluate_image'')"

text \<open>
  What this module takes from the modules around it: the default COCO configuration
  object, \<^verbatim>\<open>config.build()\<close>, which turns a configuration into a strategy, and what
  \<^verbatim>\<open>setattr\<close> needs to know of the configuration classes and of the override values.
\<close>

record ('v, 'd) externals =
  COCOEvaluationConfig :: "'v config"
  build :: "'v config \<Rightarrow> error + 'd strategy"
  objects :: "'v object_model"

section \<open>The sample collection\<close>

text \<open>
  A document maps field names to values; a sample has its own document and the
  documents of its frames, in order. A collection has a media type, the frame
  namespace prefix (\<^verbatim>\<open>samples._FRAMES_PREFIX\<close>), its samples in iteration order and the
  recorded evaluations: \<^verbatim>\<open>eval_key\<close> to \<^verbatim>\<open>(pred_field, gt_field, config)\<close>.
\<close>

datatype media = IMAGE | VIDEO

type_synonym 'd document = "string \<rightharpoonup> 'd field_value"

record 'd sample =
  field_dict :: "'d document"
  frames :: "'d document list"

record ('d, 'v) sample_collection =
  media_type :: media
  FRAMES_PREFIX :: string
  samples :: "'d sample list"
  evaluations :: "string \<rightharpoonup> (string \<times> string \<times> 'v config)"

definition startswith :: "string \<Rightarrow> string \<Rightarrow> bool" where
  "startswith s prefix = (take (length prefix) s = prefix)"

text \<open>
  Modelled from the spec: the collection store's item access (\<^verbatim>\<open>image[gt_field]\<close>), which
  is missing from the sources. The spec has each unit's ground-truth and predicted
  detection sets fetched by field name; a name the document does not hold raises, as a
  Python mapping does.
\<close>

definition getitem :: "'d document \<Rightarrow> string \<Rightarrow> error + 'd field_value" where
  "getitem img field_name =
     (case img field_name of None \<Rightarrow> Inl (KeyError field_name) | Some v \<Rightarrow> Inr v)"

text \<open>
  Modelled from the spec: \<^verbatim>\<open>samples.select_fields\<close>, missing from the sources. The spec has
  the scan visit each item of the collection, restricted to the two relevant fields for
  efficiency; the scan reads no other field, so the items are given as they are, each
  with its position in the collection.
\<close>

definition select_fields :: "string list \<Rightarrow> ('d, 'v) sample_collection \<Rightarrow> (nat \<times> 'd sample) list" where
  "select_fields field_names c = zip [0..<length (samples c)] (samples c)"

text \<open>
  Modelled from the spec: \<^verbatim>\<open>sample.save()\<close>, missing from the sources. The spec has each
  item's save an independent, immediately committed write of that item.
\<close>

definition save_sample :: "nat \<Rightarrow> 'd sample \<Rightarrow> ('d, 'v) sample_collection \<Rightarrow> ('d, 'v) sample_collection" where
  "save_sample i s c = c\<lparr>samples := (samples c)[i := s]\<rparr>"

text \<open>
  Modelled from the spec: the EvalInfoStore (\<^verbatim>\<open>_record_eval_info\<close>, \<^verbatim>\<open>_get_eval_info\<close>,
  \<^verbatim>\<open>_delete_eval_info\<close> of the module \<^verbatim>\<open>.base\<close>), missing from the sources. Record stores
  the tuple under the key and overwrites silently; get returns the stored tuple and fails
  with a not-found error if the key was never recorded or was already cleared; delete
  removes the metadata entry only.
\<close>

definition record_eval_info ::
  "('d, 'v) sample_collection \<Rightarrow> string \<Rightarrow> string \<Rightarrow> string \<Rightarrow> 'v config \<Rightarrow> ('d, 'v) sample_collection" where
  "record_eval_info c eval_key pred_field gt_field config =
     c\<lparr>evaluations := (evaluations c)(eval_key \<mapsto> (pred_field, gt_field, config))\<rparr>"

definition get_eval_info ::
  "('d, 'v) sample_collection \<Rightarrow> string \<Rightarrow> error + (string \<times> string \<times> 'v config)" where
  "get_eval_info c eval_key =
     (case evaluations c eval_key of None \<Rightarrow> Inl (NotFoundError eval_key) | Some info \<Rightarrow> Inr info)"

definition delete_eval_info :: "('d, 'v) sample_collection \<Rightarrow> string \<Rightarrow> ('d, 'v) sample_collection" where
  "delete_eval_info c eval_key = c\<lparr>evaluations := (evaluations c)(eval_key := None)\<rparr>"

text \<open>
  Modelled from the spec: \<^verbatim>\<open>samples._handle_frame_field\<close>, missing from the sources. A
  field is frame-scoped iff the collection's media type is video and the field name
  targets the frame namespace; the name is then adjusted for the frame-namespace
  prefix, that is, the prefix is taken off.
\<close>

definition handle_frame_field :: "('d, 'v) sample_collection \<Rightarrow> string \<Rightarrow> string \<times> bool" where
  "handle_frame_field c field_name =
     (if media_type c = VIDEO \<and> startswith field_name (FRAMES_PREFIX c)
      then (drop (length (FRAMES_PREFIX c)) field_name, True)
      else (field_name, False))"

text \<open>
  Modelled from the spec: \<^verbatim>\<open>samples.delete_sample_fields\<close> and
  \<^verbatim>\<open>samples.delete_frame_fields\<close>, missing from the sources. The spec has them remove
  the named fields, from every sample's document and from every frame's document; a
  dotted name such as \<^verbatim>\<open>pred.detections.k_id\<close> is the name of the embedded field.
\<close>

definition delete_fields :: "string list \<Rightarrow> 'd document \<Rightarrow> 'd document" where
  "delete_fields field_names doc = (\<lambda>f. if f \<in> set field_names then None else doc f)"

definition delete_sample_fields ::
  "string list \<Rightarrow> ('d, 'v) sample_collection \<Rightarrow> ('d, 'v) sample_collection" where
  "delete_sample_fields field_names c =
     c\<lparr>samples := map (\<lambda>s. s\<lparr>field_dict := delete_fields field_names (field_dict s)\<rparr>) (samples c)\<rparr>"

definition delete_frame_fields ::
  "string list \<Rightarrow> ('d, 'v) sample_collection \<Rightarrow> ('d, 'v) sample_collection" where
  "delete_frame_fields field_names c =
     c\<lparr>samples := map (\<lambda>s. s\<lparr>frames := map (delete_fields field_names) (frames s)\<rparr>) (samples c)\<rparr>"

section \<open>Results\<close>

text \<open>
  \<^verbatim>\<open>DetectionResults.__init__\<close> (lines 216 to 218). \<^verbatim>\<open>zip(*matches)\<close> yields nothing for
  the empty list and otherwise the tuple of the gt labels and the tuple of the pred
  labels; the assignment \<^verbatim>\<open>ytrue, ypred = ...\<close> raises a \<^verbatim>\<open>ValueError\<close> unless it gets
  exactly two values.
\<close>

definition zip_star :: "match list \<Rightarrow> label option list list" where
  "zip_star matches = (if matches = [] then [] else [map fst matches, map snd matches])"

fun unpack2 :: "'a list \<Rightarrow> error + ('a \<times> 'a)" where
  "unpack2 [ytrue, ypred] = Inr (ytrue, ypred)"
| "unpack2 [] = Inl (ValueError ''not enough values to unpack (expected 2, got 0)'')"
| "unpack2 [x] = Inl (ValueError ''not enough values to unpack (expected 2, got 1)'')"
| "unpack2 xs = Inl (ValueError ''too many values to unpack (expected 2)'')"

text \<open>
  Modelled from the spec: the constructor of \<^verbatim>\<open>ClassificationResults\<close>, missing from the
  sources. The results model substitutes the missing label for any absent side of every
  match, producing two parallel label sequences, and keeps the class list it was given
  and the missing label.
\<close>

record results =
  ytrue :: "label list"
  ypred :: "label list"
  classes :: "label list option"
  missing :: label

definition ClassificationResults_init ::
  "label option list \<Rightarrow> label option list \<Rightarrow> label list option \<Rightarrow> label \<Rightarrow> error + results" where
  "ClassificationResults_init yt yp cls miss =
     Inr \<lparr>ytrue = map (\<lambda>l. case l of None \<Rightarrow> miss | Some x \<Rightarrow> x) yt,
          ypred = map (\<lambda>l. case l of None \<Rightarrow> miss | Some x \<Rightarrow> x) yp,
          classes = cls, missing = miss\<rparr>"

definition DetectionResults_init :: "match list \<Rightarrow> label list option \<Rightarrow> label \<Rightarrow> error + results" where
  "DetectionResults_init matches cls miss =
     (case unpack2 (zip_star matches) of
        Inl e \<Rightarrow> Inl e
      | Inr (yt, yp) \<Rightarrow> ClassificationResults_init yt yp cls miss)"

section \<open>The evaluation scan\<close>

text \<open>
  \<^verbatim>\<open>evaluate_detections\<close> (lines 71 to 169). The inner loop (lines 148 to 158) runs over
  the images of one sample; its state is the global match list and the three totals of
  the sample. An error leaves the loop at once.
\<close>

fun evaluate_images ::
  "'d strategy \<Rightarrow> string \<Rightarrow> string \<Rightarrow> string option \<Rightarrow> 'd document list \<Rightarrow>
   match list \<times> int \<times> int \<times> int \<Rightarrow> error + (match list \<times> int \<times> int \<times> int)" where
  "evaluate_images eval_method gt_field pred_field eval_key []
     (matches, sample_tp, sample_fp, sample_fn) = Inr (matches, sample_tp, sample_fp, sample_fn)"
| "evaluate_images eval_method gt_field pred_field eval_key (img # images)
     (matches, sample_tp, sample_fp, sample_fn) =
     (case getitem img gt_field of
        Inl e \<Rightarrow> Inl e
      | Inr gts \<Rightarrow>
         (case getitem img pred_field of
            Inl e \<Rightarrow> Inl e
          | Inr preds \<Rightarrow>
             (case eval_method gts preds eval_key of
                Inl e \<Rightarrow> Inl e
              | Inr image_matches \<Rightarrow>
                 (case tally_matches image_matches of
                    (tp, fp, fn) \<Rightarrow>
                      evaluate_images eval_method gt_field pred_field eval_key images
                        (matches @ image_matches, sample_tp + tp, sample_fp + fp, sample_fn + fn)))))"

text \<open>
  The outer loop (lines 139 to 164) runs over the samples. With an \<^verbatim>\<open>eval_key\<close> it
  assigns the three totals to the sample and saves it before it goes on to the next
  sample. An error ends the scan with the collection as it is at that moment.
\<close>

fun evaluate_samples ::
  "'d strategy \<Rightarrow> bool \<Rightarrow> string \<Rightarrow> string \<Rightarrow> string option \<Rightarrow> (nat \<times> 'd sample) list \<Rightarrow>
   match list \<Rightarrow> ('d, 'v) sample_collection \<Rightarrow> (error + match list) \<times> ('d, 'v) sample_collection" where
  "evaluate_samples eval_method processing_frames gt_field pred_field eval_key [] matches c =
     (Inr matches, c)"
| "evaluate_samples eval_method processing_frames gt_field pred_field eval_key ((i, s) # rest) matches c =
     (let images = (if processing_frames then frames s else [field_dict s]) in
      case evaluate_images eval_method gt_field pred_field eval_key images (matches, 0, 0, 0) of
        Inl e \<Rightarrow> (Inl e, c)
      | Inr (matches', sample_tp, sample_fp, sample_fn) \<Rightarrow>
         (case eval_key of
            None \<Rightarrow>
              evaluate_samples eval_method processing_frames gt_field pred_field eval_key rest matches' c
          | Some k \<Rightarrow>
              evaluate_samples eval_method processing_frames gt_field pred_field eval_key rest matches'
                (save_sample i
                   (s\<lparr>field_dict := (field_dict s)
                        (k @ ''_tp'' \<mapsto> IntValue sample_tp,
                         k @ ''_fp'' \<mapsto> IntValue sample_fp,
                         k @ ''_fn'' \<mapsto> IntValue sample_fn)\<rparr>) c)))"

definition evaluate_detections ::
  "('v, 'd) externals \<Rightarrow> ('d, 'v) sample_collection \<Rightarrow> string \<Rightarrow> string \<Rightarrow> string option \<Rightarrow>
   label list option \<Rightarrow> label \<Rightarrow> string option \<Rightarrow> 'v config option \<Rightarrow> (string \<times> 'v) list \<Rightarrow>
   (error + results) \<times> ('d, 'v) sample_collection" where
  "evaluate_detections ext c pred_field gt_field eval_key cls miss method config kwargs =
     (case parse_config (objects ext) (COCOEvaluationConfig ext) config method kwargs of
        Inl e \<Rightarrow> (Inl e, c)
      | Inr config' \<Rightarrow>
         (case build ext config' of
            Inl e \<Rightarrow> (Inl e, c)
          | Inr eval_method \<Rightarrow>
             (let processing_frames =
                    (media_type c = VIDEO \<and> startswith pred_field (FRAMES_PREFIX c)) in
              case evaluate_samples eval_method processing_frames gt_field pred_field eval_key
                     (select_fields [gt_field, pred_field] c) [] c of
                (Inl e, c') \<Rightarrow> (Inl e, c')
              | (Inr matches, c') \<Rightarrow>
                 (let c'' = (case eval_key of
                               None \<Rightarrow> c'
                             | Some k \<Rightarrow> record_eval_info c' k pred_field gt_field config') in
                  (DetectionResults_init matches cls miss, c'')))))"

section \<open>Clearing an evaluation\<close>

text \<open>\<^verbatim>\<open>clear_detection_evaluation\<close> (lines 172 to 201).\<close>

definition clear_detection_evaluation ::
  "('d, 'v) sample_collection \<Rightarrow> string \<Rightarrow> (error + unit) \<times> ('d, 'v) sample_collection" where
  "clear_detection_evaluation c eval_key =
     (case get_eval_info c eval_key of
        Inl e \<Rightarrow> (Inl e, c)
      | Inr (pred_field, gt_field, _) \<Rightarrow>
         (case handle_frame_field c pred_field of
            (pred_field', is_frame_field) \<Rightarrow>
              (case handle_frame_field c gt_field of
                 (gt_field', _) \<Rightarrow>
                   (let fields =
                          [pred_field' @ ''.detections.'' @ eval_key @ ''_id'',
                           pred_field' @ ''.detections.'' @ eval_key @ ''_iou'',
                           gt_field' @ ''.detections.'' @ eval_key @ ''_id'',
                           gt_field' @ ''.detections.'' @ eval_key @ ''_iou''];
                        c1 = (if is_frame_field then delete_frame_fields fields c
                              else delete_sample_fields fields c);
                        c2 = delete_sample_fields
                               [eval_key @ ''_tp'', eval_key @ ''_fp'', eval_key @ ''_fn''] c1
                    in (Inr (), delete_eval_info c2 eval_key)))))"

section \<open>A small collection for the examples\<close>

text \<open>
  Two image samples, each with a ground truth field and a predictions field, a strategy
  that matches one pair on the first sample and leaves one object unmatched on either
  side of the second, and the collection without its samples. The COCO configuration
  class has one read-only property, \<^verbatim>\<open>cls\<close>, and the override values are integers,
  which are neither classes nor dictionaries.
\<close>

definition demo_coco :: "int config" where
  "demo_coco = \<lparr>config_class = ''COCOEvaluationConfig'', attrs = [''iou'' \<mapsto> 50]\<rparr>"

definition demo_objects :: "int object_model" where
  "demo_objects =
     \<lparr>rejects = (\<lambda>c k. c = ''COCOEvaluationConfig'' \<and> k = ''cls''),
      as_class = (\<lambda>v. None), as_dict = (\<lambda>v. None)\<rparr>"

definition demo_strategy :: "nat strategy" where
  "demo_strategy gts preds eval_key =
     (if gts = preds then Inr [(Some ''cat'', Some ''cat'')]
      else Inr [(Some ''dog'', None), (None, Some ''cat'')])"

definition demo_externals :: "(int, nat) externals" where
  "demo_externals =
     \<lparr>COCOEvaluationConfig = demo_coco, build = (\<lambda>cfg. Inr demo_strategy),
      objects = demo_objects\<rparr>"

definition demo_collection :: "(nat, int) sample_collection" where
  "demo_collection =
     \<lparr>media_type = IMAGE, FRAMES_PREFIX = ''frames.'',
      samples =
        [\<lparr>field_dict = [''ground_truth'' \<mapsto> Detections 1, ''predictions'' \<mapsto> Detections 1],
          frames = []\<rparr>,
         \<lparr>field_dict = [''ground_truth'' \<mapsto> Detections 2, ''predictions'' \<mapsto> Detections 3],
          frames = []\<rparr>],
      evaluations = Map.empty\<rparr>"

definition demo_empty :: "(nat, int) sample_collection" where
  "demo_empty = demo_collection\<lparr>samples := []\<rparr>"

text \<open>
  The same kind of collection with two recorded evaluations and the fields they left
  behind, and a video collection whose evaluation ran on the frames.
\<close>

definition demo_recorded :: "(nat, int) sample_collection" where
  "demo_recorded =
     \<lparr>media_type = IMAGE, FRAMES_PREFIX = ''frames.'',
      samples =
        [\<lparr>field_dict =
            [''ground_truth'' \<mapsto> Detections 1, ''predictions'' \<mapsto> Detections 1,
             ''eval_tp'' \<mapsto> IntValue 1, ''eval_fp'' \<mapsto> IntValue 0, ''eval_fn'' \<mapsto> IntValue 0,
             ''predictions.detections.eval_id'' \<mapsto> Detections 7,
             ''other_tp'' \<mapsto> IntValue 5],
          frames = []\<rparr>,
         \<lparr>field_dict = [''ground_truth'' \<mapsto> Detections 2, ''predictions'' \<mapsto> Detections 3],
          frames = []\<rparr>],
      evaluations = [''eval'' \<mapsto> (''predictions'', ''ground_truth'', demo_coco),
                     ''other'' \<mapsto> (''predictions'', ''ground_truth'', demo_coco)]\<rparr>"

definition demo_video :: "(nat, int) sample_collection" where
  "demo_video =
     \<lparr>media_type = VIDEO, FRAMES_PREFIX = ''frames.'',
      samples =
        [\<lparr>field_dict = [''eval_tp'' \<mapsto> IntValue 2, ''predictions.detections.eval_id'' \<mapsto> Detections 9],
          frames =
            [[''ground_truth'' \<mapsto> Detections 1, ''predictions'' \<mapsto> Detections 1,
              ''predictions.detections.eval_id'' \<mapsto> Detections 7,
              ''ground_truth.detections.eval_iou'' \<mapsto> Detections 8]]\<rparr>],
      evaluations = [''eval'' \<mapsto> (''frames.predictions'', ''frames.ground_truth'', demo_coco)]\<rparr>"

text \<open>
  The externals whose strategy is the base class's method, which always raises.
\<close>

definition demo_abstract :: "(int, nat) externals" where
  "demo_abstract =
     \<lparr>COCOEvaluationConfig = demo_coco,
      build = (\<lambda>cfg. Inr DetectionEvaluationMethod_evaluate_image),
      objects = demo_objects\<rparr>"

section \<open>Properties of the tally\<close>

lemma tally_loop_counts:
  "tally_loop matches (tp, fp, fn) =
     (tp + int (length (filter is_tp matches)),
      fp + int (length (filter is_fp matches)),
      fn + int (length (filter is_fn matches)))"
  by (induction matches arbitrary: tp fp fn) (auto simp: is_tp_def is_fp_def is_fn_def)

lemma tally_matches_counts:
  "tally_matches matches =
     (int (length (filter is_tp matches)),
      int (length (filter is_fp matches)),
      int (length (filter is_fn matches)))"
  by (simp add: tally_matches_def tally_loop_counts)

lemma kinds_partition:
  "length (filter is_tp matches) + length (filter is_fp matches) + length (filter is_fn matches)
     = length matches"
  by (induction matches) (auto simp: is_tp_def is_fp_def is_fn_def)

text \<open>
  Claim C1. The tally classifies each pair on its own: wherever a pair stands in the
  list, a pair with an absent gt label adds exactly one false positive to the tally of
  the other pairs, a pair with a gt label and an absent pred label adds exactly one false
  negative, and a pair with both labels adds exactly one true positive; the other two
  counters are untouched. Hence the three counts are the numbers of pairs of each kind.
  (A pair with both sides absent takes the first branch of the source and counts as a
  false positive.)
\<close>

theorem tally_matches_classifies:
  "(case tally_matches (xs @ ys) of (tp, fp, fn) \<Rightarrow>
      tally_matches (xs @ (None, pred_label) # ys) = (tp, fp + 1, fn) \<and>
      tally_matches (xs @ (Some g, None) # ys) = (tp, fp, fn + 1) \<and>
      tally_matches (xs @ (Some g, Some p) # ys) = (tp + 1, fp, fn)) \<and>
   tally_matches matches =
     (int (length (filter (\<lambda>(gt_label, pred_label). gt_label \<noteq> None \<and> pred_label \<noteq> None) matches)),
      int (length (filter (\<lambda>(gt_label, pred_label). gt_label = None) matches)),
      int (length (filter (\<lambda>(gt_label, pred_label). gt_label \<noteq> None \<and> pred_label = None) matches)))"
proof -
  have tp: "is_tp = (\<lambda>(gt_label, pred_label). gt_label \<noteq> None \<and> pred_label \<noteq> None)"
    by (auto simp: is_tp_def fun_eq_iff)
  have fp: "is_fp = (\<lambda>(gt_label, pred_label). gt_label = None)"
    by (auto simp: is_fp_def fun_eq_iff)
  have fn: "is_fn = (\<lambda>(gt_label, pred_label). gt_label \<noteq> None \<and> pred_label = None)"
    by (auto simp: is_fn_def fun_eq_iff)
  have one: "case tally_matches (xs @ ys) of (tp, fp, fn) \<Rightarrow>
      tally_matches (xs @ (None, pred_label) # ys) = (tp, fp + 1, fn) \<and>
      tally_matches (xs @ (Some g, None) # ys) = (tp, fp, fn + 1) \<and>
      tally_matches (xs @ (Some g, Some p) # ys) = (tp + 1, fp, fn)"
    by (simp add: tally_matches_counts is_tp_def is_fp_def is_fn_def)
  have all: "tally_matches matches =
     (int (length (filter (\<lambda>(gt_label, pred_label). gt_label \<noteq> None \<and> pred_label \<noteq> None) matches)),
      int (length (filter (\<lambda>(gt_label, pred_label). gt_label = None) matches)),
      int (length (filter (\<lambda>(gt_label, pred_label). gt_label \<noteq> None \<and> pred_label = None) matches)))"
    unfolding tally_matches_counts tp fp fn by (rule refl)
  from one all show ?thesis by (rule conjI)
qed

text \<open>
  Claim C2. For every list of matches the three counts add up to the length of the list.
\<close>

theorem tally_matches_total:
  "(case tally_matches matches of (tp, fp, fn) \<Rightarrow> tp + fp + fn = int (length matches))"
proof -
  have "int (length (filter is_tp matches)) + int (length (filter is_fp matches))
          + int (length (filter is_fn matches)) = int (length matches)"
    using kinds_partition [of matches] by linarith
  then show ?thesis by (simp add: tally_matches_counts)
qed

text \<open>
  Claim C3, as stated: on the list
  \<^verbatim>\<open>[("cat","cat"), ("dog", None), (None, "cat"), ("cat","dog")]\<close> the tally is
  \<^verbatim>\<open>(tp=1, fp=1, fn=1)\<close>. The source does not return that triple: the list holds two
  pairs with both labels present, \<^verbatim>\<open>("cat","cat")\<close> and \<^verbatim>\<open>("cat","dog")\<close>, and each of
  them takes the \<^verbatim>\<open>else\<close> branch.
\<close>

theorem tally_matches_example_not_1_1_1:
  "tally_matches
     [(Some ''cat'', Some ''cat''), (Some ''dog'', None), (None, Some ''cat''),
      (Some ''cat'', Some ''dog'')] \<noteq> (1, 1, 1)"
  by (simp add: tally_matches_def)

text \<open>
  Claim C3, amended: on that list the tally is \<^verbatim>\<open>(tp=2, fp=1, fn=1)\<close>, and the pair
  \<^verbatim>\<open>("cat","dog")\<close> is counted as a true positive because both sides are present,
  although the labels differ.
\<close>

theorem tally_matches_example:
  "tally_matches
     [(Some ''cat'', Some ''cat''), (Some ''dog'', None), (None, Some ''cat''),
      (Some ''cat'', Some ''dog'')] = (2, 1, 1) \<and>
   tally_matches [(Some ''cat'', Some ''dog'')] = (1, 0, 0)"
  by (simp add: tally_matches_def)

section \<open>Properties of the configuration resolution\<close>

lemma setattr_plain:
  "k \<noteq> ''__class__'' \<Longrightarrow> k \<noteq> ''__dict__'' \<Longrightarrow> \<not> rejects om (config_class config) k \<Longrightarrow>
   setattr om config k v = Inr (config\<lparr>attrs := (attrs config)(k \<mapsto> v)\<rparr>)"
  by (simp add: setattr_def)

lemma setattr_rejected:
  "k \<noteq> ''__class__'' \<Longrightarrow> k \<noteq> ''__dict__'' \<Longrightarrow> rejects om (config_class config) k \<Longrightarrow>
   setattr om config k v = Inl (AttributeError k)"
  by (simp add: setattr_def)

lemma apply_overrides_plain:
  assumes "\<forall>k \<in> fst ` set kwargs.
             k \<noteq> ''__class__'' \<and> k \<noteq> ''__dict__'' \<and> \<not> rejects om (config_class config) k"
  shows "\<exists>c. apply_overrides om config kwargs = Inr c \<and>
              attrs c = attrs config ++ map_of (rev kwargs) \<and>
              config_class c = config_class config"
  using assms
proof (induction kwargs arbitrary: config)
  case Nil
  show ?case by simp
next
  case (Cons kv kwargs)
  obtain k v where kv: "kv = (k, v)" by (cases kv)
  let ?config' = "config\<lparr>attrs := (attrs config)(k \<mapsto> v)\<rparr>"
  from Cons.prems have s: "setattr om config k v = Inr ?config'"
    by (simp add: kv setattr_plain)
  from Cons.prems have "\<forall>k \<in> fst ` set kwargs.
      k \<noteq> ''__class__'' \<and> k \<noteq> ''__dict__'' \<and> \<not> rejects om (config_class ?config') k"
    by simp
  from Cons.IH [OF this] obtain c where
    c: "apply_overrides om ?config' kwargs = Inr c"
    and a: "attrs c = attrs ?config' ++ map_of (rev kwargs)"
    and cl: "config_class c = config_class ?config'"
    by blast
  have "attrs ?config' ++ map_of (rev kwargs) = attrs config ++ map_of (rev (kv # kwargs))"
    by (simp add: kv fun_eq_iff map_add_def split: option.splits)
  with c a cl s show ?case
    by (simp add: kv)
qed

lemma apply_overrides_rejected:
  assumes "\<forall>k \<in> fst ` set kwargs. k \<noteq> ''__class__'' \<and> k \<noteq> ''__dict__''"
    and "\<exists>k \<in> fst ` set kwargs. rejects om (config_class config) k"
  shows "\<exists>k \<in> fst ` set kwargs. rejects om (config_class config) k \<and>
           apply_overrides om config kwargs = Inl (AttributeError k)"
  using assms
proof (induction kwargs arbitrary: config)
  case Nil
  then show ?case by simp
next
  case (Cons kv kwargs)
  obtain k v where kv: "kv = (k, v)" by (cases kv)
  from Cons.prems(1) have plain: "k \<noteq> ''__class__''" "k \<noteq> ''__dict__''"
    and rest: "\<forall>k \<in> fst ` set kwargs. k \<noteq> ''__class__'' \<and> k \<noteq> ''__dict__''"
    by (simp_all add: kv)
  show ?case
  proof (cases "rejects om (config_class config) k")
    case True
    with plain have "apply_overrides om config (kv # kwargs) = Inl (AttributeError k)"
      by (simp add: kv setattr_rejected)
    with True show ?thesis by (auto simp: kv)
  next
    case False
    let ?config' = "config\<lparr>attrs := (attrs config)(k \<mapsto> v)\<rparr>"
    from False plain have s: "setattr om config k v = Inr ?config'"
      by (simp add: setattr_plain)
    from False Cons.prems(2) have "\<exists>k \<in> fst ` set kwargs. rejects om (config_class ?config') k"
      by (auto simp: kv)
    from Cons.IH [OF rest this] obtain k' where
      k': "k' \<in> fst ` set kwargs" "rejects om (config_class config) k'"
      and r: "apply_overrides om ?config' kwargs = Inl (AttributeError k')"
      by auto
    from r s have "apply_overrides om config (kv # kwargs) = Inl (AttributeError k')"
      by (simp add: kv)
    with k' show ?thesis by (auto simp: kv)
  qed
qed

lemma parse_config_resolved:
  "config \<noteq> None \<or> method = None \<or> method = Some ''coco'' \<Longrightarrow>
   parse_config om coco config method kwargs =
     apply_overrides om (case config of None \<Rightarrow> coco | Some c0 \<Rightarrow> c0) kwargs"
  by (auto simp: parse_config_def get_default_config_def split: option.splits)

lemma parse_config_unresolved:
  "\<not> (config \<noteq> None \<or> method = None \<or> method = Some ''coco'') \<Longrightarrow>
   \<exists>e. parse_config om coco config method kwargs = Inl e"
  by (auto simp: parse_config_def get_default_config_def split: option.splits)


text \<open>
  Claim C9, as stated: any attribute name may be set, and the returned configuration
  carries every supplied override value. That fails for a name that the class of the
  configuration refuses to bind: with a COCO configuration class whose property
  \<^verbatim>\<open>cls\<close> has no setter, the override \<^verbatim>\<open>cls=7\<close> makes \<^verbatim>\<open>setattr\<close> raise, so the resolution
  and the evaluation that called it end in an \<^verbatim>\<open>AttributeError\<close> and no configuration is
  returned.
\<close>

theorem parse_config_refuses_read_only_override:
  "rejects demo_objects (config_class demo_coco) ''cls'' \<and>
   parse_config demo_objects demo_coco None None [(''cls'', 7)] = Inl (AttributeError ''cls'') \<and>
   evaluate_detections demo_externals demo_collection ''predictions'' ''ground_truth''
     None None ''none'' None None [(''cls'', 7)] = (Inl (AttributeError ''cls''), demo_collection)"
  by (simp add: parse_config_def get_default_config_def setattr_def demo_objects_def
      demo_coco_def demo_externals_def evaluate_detections_def)

text \<open>
  Claim C9, amended. \<^verbatim>\<open>kwargs\<close> is a dictionary, so its keys are pairwise distinct; let
  none of them be \<^verbatim>\<open>__class__\<close> or \<^verbatim>\<open>__dict__\<close>. When the class of the resolved
  configuration refuses none of the names, resolution applies every override as an
  attribute binding, whether or not the configuration has an option of that name: no
  override makes the resolution fail (it succeeds exactly when a configuration was
  given or the method is absent or \<^verbatim>\<open>"coco"\<close>), the returned configuration carries the
  value of every override, and it keeps its class and every attribute that no override
  names. When the class refuses one of the names, a resolution that got as far as the
  overrides raises an \<^verbatim>\<open>AttributeError\<close> for a refused name.
\<close>

theorem parse_config_applies_every_override:
  assumes "distinct (map fst kwargs)"
    and "\<forall>k \<in> fst ` set kwargs. k \<noteq> ''__class__'' \<and> k \<noteq> ''__dict__''"
  shows
    "((\<forall>k \<in> fst ` set kwargs.
         \<not> rejects om (config_class (case config of None \<Rightarrow> coco | Some c0 \<Rightarrow> c0)) k) \<longrightarrow>
      ((\<exists>c. parse_config om coco config method kwargs = Inr c) \<longleftrightarrow>
         (config \<noteq> None \<or> method = None \<or> method = Some ''coco'')) \<and>
      (\<forall>c. parse_config om coco config method kwargs = Inr c \<longrightarrow>
         (\<forall>(k, v) \<in> set kwargs. attrs c k = Some v) \<and>
         (\<forall>k. k \<notin> fst ` set kwargs \<longrightarrow>
            attrs c k = attrs (case config of None \<Rightarrow> coco | Some c0 \<Rightarrow> c0) k) \<and>
         config_class c = config_class (case config of None \<Rightarrow> coco | Some c0 \<Rightarrow> c0))) \<and>
     ((config \<noteq> None \<or> method = None \<or> method = Some ''coco'') \<longrightarrow>
      (\<exists>k \<in> fst ` set kwargs.
         rejects om (config_class (case config of None \<Rightarrow> coco | Some c0 \<Rightarrow> c0)) k) \<longrightarrow>
      (\<exists>k \<in> fst ` set kwargs.
         rejects om (config_class (case config of None \<Rightarrow> coco | Some c0 \<Rightarrow> c0)) k \<and>
         parse_config om coco config method kwargs = Inl (AttributeError k)))"
proof (intro conjI impI)
  define c0 where "c0 = (case config of None \<Rightarrow> coco | Some c0 \<Rightarrow> c0)"
  assume ok: "\<forall>k \<in> fst ` set kwargs.
         \<not> rejects om (config_class (case config of None \<Rightarrow> coco | Some c0 \<Rightarrow> c0)) k"
  with assms(2) have "\<forall>k \<in> fst ` set kwargs.
      k \<noteq> ''__class__'' \<and> k \<noteq> ''__dict__'' \<and> \<not> rejects om (config_class c0) k"
    by (simp add: c0_def)
  from apply_overrides_plain [OF this] obtain c1 where
    c1: "apply_overrides om c0 kwargs = Inr c1"
    and a: "attrs c1 = attrs c0 ++ map_of (rev kwargs)"
    and cl: "config_class c1 = config_class c0"
    by blast
  show "(\<exists>c. parse_config om coco config method kwargs = Inr c) \<longleftrightarrow>
          (config \<noteq> None \<or> method = None \<or> method = Some ''coco'')"
  proof (cases "config \<noteq> None \<or> method = None \<or> method = Some ''coco''")
    case True
    from parse_config_resolved [OF True, of om coco kwargs] c1 True show ?thesis
      by (simp add: c0_def)
  next
    case False
    from parse_config_unresolved [OF False, of om coco kwargs] False show ?thesis
      by auto
  qed
  show "\<forall>c. parse_config om coco config method kwargs = Inr c \<longrightarrow>
         (\<forall>(k, v) \<in> set kwargs. attrs c k = Some v) \<and>
         (\<forall>k. k \<notin> fst ` set kwargs \<longrightarrow>
            attrs c k = attrs (case config of None \<Rightarrow> coco | Some c0 \<Rightarrow> c0) k) \<and>
         config_class c = config_class (case config of None \<Rightarrow> coco | Some c0 \<Rightarrow> c0)"
  proof (intro allI impI)
    fix c
    assume p: "parse_config om coco config method kwargs = Inr c"
    have res: "config \<noteq> None \<or> method = None \<or> method = Some ''coco''"
    proof (rule ccontr)
      assume "\<not> ?thesis"
      from parse_config_unresolved [OF this, of om coco kwargs] p show False by simp
    qed
    from parse_config_resolved [OF res, of om coco kwargs] p c1 have c: "c = c1"
      by (simp add: c0_def)
    from assms(1) have d: "distinct (map fst (rev kwargs))"
      by (simp add: rev_map [symmetric])
    have carried: "\<forall>(k, v) \<in> set kwargs. attrs c k = Some v"
    proof (clarify)
      fix k v
      assume "(k, v) \<in> set kwargs"
      then have "(k, v) \<in> set (rev kwargs)" by simp
      with d have "map_of (rev kwargs) k = Some v" by (rule map_of_is_SomeI)
      then show "attrs c k = Some v" by (simp add: c a)
    qed
    have kept: "\<forall>k. k \<notin> fst ` set kwargs \<longrightarrow>
            attrs c k = attrs (case config of None \<Rightarrow> coco | Some c0 \<Rightarrow> c0) k"
    proof (intro allI impI)
      fix k
      assume "k \<notin> fst ` set kwargs"
      then have "map_of (rev kwargs) k = None"
        by (simp add: map_of_eq_None_iff)
      then show "attrs c k = attrs (case config of None \<Rightarrow> coco | Some c0 \<Rightarrow> c0) k"
        by (simp add: c a map_add_def c0_def)
    qed
    have "config_class c = config_class (case config of None \<Rightarrow> coco | Some c0 \<Rightarrow> c0)"
      by (simp add: c cl c0_def)
    with carried kept show "(\<forall>(k, v) \<in> set kwargs. attrs c k = Some v) \<and>
         (\<forall>k. k \<notin> fst ` set kwargs \<longrightarrow>
            attrs c k = attrs (case config of None \<Rightarrow> coco | Some c0 \<Rightarrow> c0) k) \<and>
         config_class c = config_class (case config of None \<Rightarrow> coco | Some c0 \<Rightarrow> c0)"
      by (intro conjI)
  qed
next
  assume res: "config \<noteq> None \<or> method = None \<or> method = Some ''coco''"
    and rej: "\<exists>k \<in> fst ` set kwargs.
         rejects om (config_class (case config of None \<Rightarrow> coco | Some c0 \<Rightarrow> c0)) k"
  from apply_overrides_rejected [OF assms(2) rej]
  show "\<exists>k \<in> fst ` set kwargs.
         rejects om (config_class (case config of None \<Rightarrow> coco | Some c0 \<Rightarrow> c0)) k \<and>
         parse_config om coco config method kwargs = Inl (AttributeError k)"
    unfolding parse_config_resolved [OF res] .
qed


theorem parse_config_applies_every_override_witness:
  "distinct (map fst [(''iou'', 1::int), (''no_such_option'', 2)]) \<and>
   (\<exists>c. parse_config demo_objects demo_coco None None
           [(''iou'', 1), (''no_such_option'', 2)] = Inr c \<and>
        attrs c ''iou'' = Some 1 \<and> attrs c ''no_such_option'' = Some 2 \<and>
        attrs c ''classwise'' = None \<and> config_class c = ''COCOEvaluationConfig'') \<and>
   distinct (map fst [(''iou'', 1::int), (''cls'', 7)]) \<and>
   rejects demo_objects (config_class demo_coco) ''cls'' \<and>
   parse_config demo_objects demo_coco None None [(''iou'', 1), (''cls'', 7)] =
     Inl (AttributeError ''cls'')"
proof -
  have d1: "distinct (map fst [(''iou'', 1::int), (''no_such_option'', 2)])"
    and p1: "\<forall>k \<in> fst ` set [(''iou'', 1::int), (''no_such_option'', 2)].
               k \<noteq> ''__class__'' \<and> k \<noteq> ''__dict__''"
    and n1: "\<forall>k \<in> fst ` set [(''iou'', 1::int), (''no_such_option'', 2)].
               \<not> rejects demo_objects
                   (config_class (case None of None \<Rightarrow> demo_coco | Some c0 \<Rightarrow> c0)) k"
    by (simp_all add: demo_objects_def)
  have d2: "distinct (map fst [(''iou'', 1::int), (''cls'', 7)])"
    and p2: "\<forall>k \<in> fst ` set [(''iou'', 1::int), (''cls'', 7)].
               k \<noteq> ''__class__'' \<and> k \<noteq> ''__dict__''"
    by simp_all
  have r: "rejects demo_objects (config_class demo_coco) ''cls''"
    by (simp add: demo_objects_def demo_coco_def)
  note t1 = parse_config_applies_every_override
    [OF d1 p1, of demo_objects demo_coco None None, THEN conjunct1, THEN mp, OF n1]
  note t2 = parse_config_applies_every_override
    [OF d2 p2, of demo_objects demo_coco None None, THEN conjunct2]
  from t1 obtain c where
    c: "parse_config demo_objects demo_coco None None [(''iou'', 1), (''no_such_option'', 2)] = Inr c"
    by blast
  with t1 have "(\<forall>(k, v) \<in> set [(''iou'', 1::int), (''no_such_option'', 2)]. attrs c k = Some v)"
    and kept: "\<forall>k. k \<notin> fst ` set [(''iou'', 1::int), (''no_such_option'', 2)] \<longrightarrow>
                 attrs c k = attrs demo_coco k"
    and cl: "config_class c = config_class demo_coco"
    by simp_all
  then have "attrs c ''iou'' = Some 1" and "attrs c ''no_such_option'' = Some 2"
    by simp_all
  moreover from kept have "attrs c ''classwise'' = None"
    by (simp add: demo_coco_def)
  moreover from cl have "config_class c = ''COCOEvaluationConfig''"
    by (simp add: demo_coco_def)
  ultimately have first: "\<exists>c. parse_config demo_objects demo_coco None None
           [(''iou'', 1), (''no_such_option'', 2)] = Inr c \<and>
        attrs c ''iou'' = Some 1 \<and> attrs c ''no_such_option'' = Some 2 \<and>
        attrs c ''classwise'' = None \<and> config_class c = ''COCOEvaluationConfig''"
    using c by blast
  from r have "\<exists>k \<in> fst ` set [(''iou'', 1::int), (''cls'', 7)].
       rejects demo_objects (config_class (case None of None \<Rightarrow> demo_coco | Some c0 \<Rightarrow> c0)) k"
    by simp
  with t2 have "\<exists>k \<in> fst ` set [(''iou'', 1::int), (''cls'', 7)].
       rejects demo_objects (config_class (case None of None \<Rightarrow> demo_coco | Some c0 \<Rightarrow> c0)) k \<and>
       parse_config demo_objects demo_coco None None [(''iou'', 1), (''cls'', 7)] =
         Inl (AttributeError k)"
    by blast
  then have second: "parse_config demo_objects demo_coco None None [(''iou'', 1), (''cls'', 7)] =
     Inl (AttributeError ''cls'')"
    by (auto simp: demo_objects_def)
  from d1 first d2 r second show ?thesis by (intro conjI)
qed

text \<open>
  Claim C8. The list of methods holds the default method \<^verbatim>\<open>"coco"\<close>, which is what an
  absent method resolves to; with no configuration given, resolution accepts exactly
  that method name and rejects every other string, whatever the overrides are. An
  evaluation called with no configuration and a method name outside the list ends in
  the configuration error of the resolution: whatever the strategy builder, the samples
  and the \<^verbatim>\<open>eval_key\<close> are, nothing is scanned and the collection is returned as it was.
\<close>

theorem unknown_method_rejected_before_scan:
  "''coco'' \<in> set list_detection_methods \<and>
   parse_config om coco None None kwargs = parse_config om coco None (Some ''coco'') kwargs \<and>
   parse_config om coco None None [] = Inr coco \<and>
   ((\<exists>cfg. get_default_config coco method = Inr cfg) \<longleftrightarrow> method = ''coco'') \<and>
   ((\<exists>cfg. parse_config om coco None (Some method) [] = Inr cfg) \<longleftrightarrow> method = ''coco'') \<and>
   (method \<noteq> ''coco'' \<longrightarrow>
      parse_config om coco None (Some method) kwargs =
        Inl (ValueError (''Unsupported evaluation method '' @ [CHR 0x27] @ method @ [CHR 0x27]))) \<and>
   (method \<notin> set list_detection_methods \<longrightarrow>
      evaluate_detections ext c pred_field gt_field eval_key cls miss (Some method) None kwargs =
        (Inl (ValueError (''Unsupported evaluation method '' @ [CHR 0x27] @ method @ [CHR 0x27])), c))"
  by (auto simp: list_detection_methods_def parse_config_def get_default_config_def
      evaluate_detections_def)

theorem unknown_method_rejected_before_scan_witness:
  "''yolo'' \<notin> set list_detection_methods \<and>
   evaluate_detections demo_externals demo_collection ''predictions'' ''ground_truth''
     (Some ''eval'') None ''none'' (Some ''yolo'') None [(''iou'', 75)] =
   (Inl (ValueError (''Unsupported evaluation method '' @ [CHR 0x27] @ ''yolo'' @ [CHR 0x27])),
    demo_collection)"
  using unknown_method_rejected_before_scan
    [of demo_objects demo_coco "[(''iou'', 75)]" "''yolo''" demo_externals demo_collection
        "''predictions''" "''ground_truth''" "Some ''eval''" None "''none''"]
  by (simp add: list_detection_methods_def)

section \<open>Properties of the results constructor\<close>

lemma select_fields_empty: "samples c = [] \<Longrightarrow> select_fields names c = []"
  by (simp add: select_fields_def)

text \<open>
  Claim C10. Constructing the results from the empty match list fails: \<^verbatim>\<open>zip(*[])\<close>
  yields nothing and the unpacking into \<^verbatim>\<open>ytrue, ypred\<close> raises a \<^verbatim>\<open>ValueError\<close>, whereas
  the unpacking succeeds on every non-empty match list. So a run of the evaluation whose
  scan ends with no match raises that error instead of returning results, and a run over
  a collection without samples always ends in an error.
\<close>

theorem DetectionResults_of_no_matches_fails:
  "DetectionResults_init [] cls miss =
     Inl (ValueError ''not enough values to unpack (expected 2, got 0)'') \<and>
   (matches \<noteq> [] \<longrightarrow> unpack2 (zip_star matches) = Inr (map fst matches, map snd matches)) \<and>
   (parse_config (objects ext) (COCOEvaluationConfig ext) config method kwargs = Inr cfg \<longrightarrow>
    build ext cfg = Inr eval_method \<longrightarrow>
    fst (evaluate_samples eval_method
           (media_type c = VIDEO \<and> startswith pred_field (FRAMES_PREFIX c))
           gt_field pred_field eval_key (select_fields [gt_field, pred_field] c) [] c) = Inr [] \<longrightarrow>
    fst (evaluate_detections ext c pred_field gt_field eval_key cls miss method config kwargs) =
      Inl (ValueError ''not enough values to unpack (expected 2, got 0)'')) \<and>
   (samples c = [] \<longrightarrow>
      (\<exists>e. fst (evaluate_detections ext c pred_field gt_field eval_key cls miss method config kwargs) = Inl e))"
proof (intro conjI impI)
  show "DetectionResults_init [] cls miss =
     Inl (ValueError ''not enough values to unpack (expected 2, got 0)'')"
    by (simp add: DetectionResults_init_def zip_star_def)
  show "unpack2 (zip_star matches) = Inr (map fst matches, map snd matches)" if "matches \<noteq> []"
    using that by (simp add: zip_star_def)
  show "fst (evaluate_detections ext c pred_field gt_field eval_key cls miss method config kwargs) =
      Inl (ValueError ''not enough values to unpack (expected 2, got 0)'')"
    if "parse_config (objects ext) (COCOEvaluationConfig ext) config method kwargs = Inr cfg"
      and "build ext cfg = Inr eval_method"
      and "fst (evaluate_samples eval_method
           (media_type c = VIDEO \<and> startswith pred_field (FRAMES_PREFIX c))
           gt_field pred_field eval_key (select_fields [gt_field, pred_field] c) [] c) = Inr []"
    using that
    by (auto simp: evaluate_detections_def DetectionResults_init_def zip_star_def Let_def
        split: prod.splits sum.splits)
  show "\<exists>e. fst (evaluate_detections ext c pred_field gt_field eval_key cls miss method config kwargs) = Inl e"
    if "samples c = []"
    using that
    by (auto simp: evaluate_detections_def DetectionResults_init_def zip_star_def Let_def
        select_fields_empty split: prod.splits sum.splits)
qed


theorem DetectionResults_of_no_matches_fails_witness:
  "samples demo_empty = [] \<and>
   parse_config (objects demo_externals) (COCOEvaluationConfig demo_externals) None None [] = Inr demo_coco \<and>
   build demo_externals demo_coco = Inr demo_strategy \<and>
   fst (evaluate_detections demo_externals demo_empty ''predictions'' ''ground_truth''
          (Some ''eval'') None ''none'' None None []) =
     Inl (ValueError ''not enough values to unpack (expected 2, got 0)'')"
proof -
  have p: "parse_config (objects demo_externals) (COCOEvaluationConfig demo_externals) None None [] = Inr demo_coco"
    by (simp add: parse_config_def get_default_config_def demo_externals_def)
  have b: "build demo_externals demo_coco = Inr demo_strategy"
    by (simp add: demo_externals_def)
  have e: "samples demo_empty = []"
    by (simp add: demo_empty_def)
  have s: "fst (evaluate_samples demo_strategy
           (media_type demo_empty = VIDEO \<and> startswith ''predictions'' (FRAMES_PREFIX demo_empty))
           ''ground_truth'' ''predictions'' (Some ''eval'')
           (select_fields [''ground_truth'', ''predictions''] demo_empty) [] demo_empty) = Inr []"
    by (simp add: select_fields_empty [OF e])
  from p b s e show ?thesis
    using DetectionResults_of_no_matches_fails
      [of None "''none''" "[]" demo_externals None None "[]" demo_coco demo_strategy demo_empty
          "''predictions''" "''ground_truth''" "Some ''eval''"]
    by simp
qed

section \<open>Properties of clearing\<close>

lemma nth_samples_delete_sample_fields:
  "i < length (samples c) \<Longrightarrow>
   samples (delete_sample_fields names c) ! i =
     (samples c ! i)\<lparr>field_dict := delete_fields names (field_dict (samples c ! i))\<rparr>"
  by (simp add: delete_sample_fields_def)

lemma nth_samples_delete_frame_fields:
  "i < length (samples c) \<Longrightarrow>
   samples (delete_frame_fields names c) ! i =
     (samples c ! i)\<lparr>frames := map (delete_fields names) (frames (samples c ! i))\<rparr>"
  by (simp add: delete_frame_fields_def)

lemma length_samples_delete [simp]:
  "length (samples (delete_sample_fields names c)) = length (samples c)"
  "length (samples (delete_frame_fields names c)) = length (samples c)"
  by (simp_all add: delete_sample_fields_def delete_frame_fields_def)

lemma other_parts_delete [simp]:
  "evaluations (delete_sample_fields names c) = evaluations c"
  "evaluations (delete_frame_fields names c) = evaluations c"
  "media_type (delete_sample_fields names c) = media_type c"
  "media_type (delete_frame_fields names c) = media_type c"
  "FRAMES_PREFIX (delete_sample_fields names c) = FRAMES_PREFIX c"
  "FRAMES_PREFIX (delete_frame_fields names c) = FRAMES_PREFIX c"
  by (simp_all add: delete_sample_fields_def delete_frame_fields_def)

lemma clear_unrecorded:
  "evaluations c eval_key = None \<Longrightarrow>
   clear_detection_evaluation c eval_key = (Inl (NotFoundError eval_key), c)"
  by (simp add: clear_detection_evaluation_def get_eval_info_def)

lemma clear_recorded:
  assumes "evaluations c eval_key = Some (pred_field, gt_field, config)"
    and "handle_frame_field c pred_field = (pred_field', is_frame_field)"
    and "handle_frame_field c gt_field = (gt_field', gt_is_frame)"
  shows "clear_detection_evaluation c eval_key =
     (Inr (),
      delete_eval_info
        (delete_sample_fields [eval_key @ ''_tp'', eval_key @ ''_fp'', eval_key @ ''_fn'']
           ((if is_frame_field then delete_frame_fields else delete_sample_fields)
              [pred_field' @ ''.detections.'' @ eval_key @ ''_id'',
               pred_field' @ ''.detections.'' @ eval_key @ ''_iou'',
               gt_field' @ ''.detections.'' @ eval_key @ ''_id'',
               gt_field' @ ''.detections.'' @ eval_key @ ''_iou''] c)) eval_key)"
  using assms by (simp add: clear_detection_evaluation_def get_eval_info_def Let_def)

lemma clear_recorded_evaluations:
  assumes "evaluations c eval_key = Some info"
  shows "fst (clear_detection_evaluation c eval_key) = Inr () \<and>
         evaluations (snd (clear_detection_evaluation c eval_key)) = (evaluations c)(eval_key := None)"
proof -
  obtain pred_field gt_field config where i: "info = (pred_field, gt_field, config)"
    by (cases info)
  obtain p pf where p: "handle_frame_field c pred_field = (p, pf)"
    by (cases "handle_frame_field c pred_field")
  obtain g gf where g: "handle_frame_field c gt_field = (g, gf)"
    by (cases "handle_frame_field c gt_field")
  show ?thesis
    unfolding clear_recorded [OF assms [unfolded i] p g]
    by (cases pf) (simp_all add: delete_eval_info_def)
qed

text \<open>
  Claim C4. When no evaluation is recorded under the key, clearing fails with the
  not-found error of the lookup and the collection is returned exactly as it was: no
  detection-level field, no sample-level count and no recorded evaluation is removed.
  The same holds for a key that was cleared before: after a successful clear, a second
  clear of the key fails in that way. The lookup is the only failure of clearing, so an
  error always comes with an unchanged collection.
\<close>

theorem clear_unrecorded_fails_without_deleting:
  "(evaluations c eval_key = None \<longrightarrow>
      clear_detection_evaluation c eval_key = (Inl (NotFoundError eval_key), c)) \<and>
   (fst (clear_detection_evaluation c eval_key) = Inr () \<longrightarrow>
      clear_detection_evaluation (snd (clear_detection_evaluation c eval_key)) eval_key =
        (Inl (NotFoundError eval_key), snd (clear_detection_evaluation c eval_key))) \<and>
   (\<forall>e. fst (clear_detection_evaluation c eval_key) = Inl e \<longrightarrow>
      e = NotFoundError eval_key \<and> evaluations c eval_key = None \<and>
      snd (clear_detection_evaluation c eval_key) = c)"
proof (cases "evaluations c eval_key")
  case None
  then show ?thesis by (simp add: clear_unrecorded)
next
  case (Some info)
  from clear_recorded_evaluations [OF Some]
  have ok: "fst (clear_detection_evaluation c eval_key) = Inr ()"
    and ev: "evaluations (snd (clear_detection_evaluation c eval_key)) eval_key = None"
    by simp_all
  from ev have "clear_detection_evaluation (snd (clear_detection_evaluation c eval_key)) eval_key =
        (Inl (NotFoundError eval_key), snd (clear_detection_evaluation c eval_key))"
    by (rule clear_unrecorded)
  with ok Some show ?thesis by simp
qed

theorem clear_unrecorded_fails_without_deleting_witness:
  "evaluations demo_collection ''eval'' = None \<and>
   clear_detection_evaluation demo_collection ''eval'' =
     (Inl (NotFoundError ''eval''), demo_collection) \<and>
   fst (clear_detection_evaluation demo_recorded ''eval'') = Inr () \<and>
   clear_detection_evaluation (snd (clear_detection_evaluation demo_recorded ''eval'')) ''eval'' =
     (Inl (NotFoundError ''eval''), snd (clear_detection_evaluation demo_recorded ''eval''))"
proof -
  have a: "evaluations demo_collection ''eval'' = None"
    by (simp add: demo_collection_def)
  have b: "fst (clear_detection_evaluation demo_recorded ''eval'') = Inr ()"
    using clear_recorded_evaluations [of demo_recorded "''eval''"]
    by (simp add: demo_recorded_def)
  from a clear_unrecorded_fails_without_deleting [of demo_collection "''eval''"]
  have c: "clear_detection_evaluation demo_collection ''eval'' =
     (Inl (NotFoundError ''eval''), demo_collection)"
    by (rule mp [OF conjunct1, rotated])
  from b clear_unrecorded_fails_without_deleting [of demo_recorded "''eval''"]
  have d: "clear_detection_evaluation (snd (clear_detection_evaluation demo_recorded ''eval'')) ''eval'' =
     (Inl (NotFoundError ''eval''), snd (clear_detection_evaluation demo_recorded ''eval''))"
    by (rule mp [OF conjunct1 [OF conjunct2], rotated])
  from a c b d show ?thesis by (intro conjI)
qed


text \<open>
  Claim C5. When an evaluation \<^verbatim>\<open>(pred_field, gt_field, config)\<close> is recorded under the
  key, clearing succeeds and removes exactly these fields: the four detection-level
  fields \<^verbatim>\<open><field>.detections.<eval_key>_id\<close> and \<^verbatim>\<open><field>.detections.<eval_key>_iou\<close> of
  the prediction and the ground truth field, each name with the frame prefix taken off
  as \<^verbatim>\<open>_handle_frame_field\<close> returns it, from every frame when the prediction field is
  frame-scoped and from every sample otherwise; and the sample-level fields
  \<^verbatim>\<open><eval_key>_tp\<close>, \<^verbatim>\<open><eval_key>_fp\<close>, \<^verbatim>\<open><eval_key>_fn\<close>. It then deletes the recorded
  evaluation of that key. Every other field of every sample and frame, the number of
  samples and frames, every other recorded evaluation, the media type and the frame
  prefix are unchanged.
\<close>

theorem clear_removes_exactly_the_evaluation_fields:
  assumes "evaluations c eval_key = Some (pred_field, gt_field, config)"
    and "handle_frame_field c pred_field = (pred_field', is_frame_field)"
    and "handle_frame_field c gt_field = (gt_field', gt_is_frame)"
  shows "\<exists>c'. clear_detection_evaluation c eval_key = (Inr (), c') \<and>
     evaluations c' = (evaluations c)(eval_key := None) \<and>
     media_type c' = media_type c \<and> FRAMES_PREFIX c' = FRAMES_PREFIX c \<and>
     length (samples c') = length (samples c) \<and>
     (\<forall>i < length (samples c). \<forall>f.
        field_dict (samples c' ! i) f =
          (if f \<in> {eval_key @ ''_tp'', eval_key @ ''_fp'', eval_key @ ''_fn''} \<or>
              \<not> is_frame_field \<and>
              f \<in> {pred_field' @ ''.detections.'' @ eval_key @ ''_id'',
                   pred_field' @ ''.detections.'' @ eval_key @ ''_iou'',
                   gt_field' @ ''.detections.'' @ eval_key @ ''_id'',
                   gt_field' @ ''.detections.'' @ eval_key @ ''_iou''}
           then None else field_dict (samples c ! i) f) \<and>
        length (frames (samples c' ! i)) = length (frames (samples c ! i)) \<and>
        (\<forall>j < length (frames (samples c ! i)).
           (frames (samples c' ! i) ! j) f =
             (if is_frame_field \<and>
                 f \<in> {pred_field' @ ''.detections.'' @ eval_key @ ''_id'',
                      pred_field' @ ''.detections.'' @ eval_key @ ''_iou'',
                      gt_field' @ ''.detections.'' @ eval_key @ ''_id'',
                      gt_field' @ ''.detections.'' @ eval_key @ ''_iou''}
              then None else (frames (samples c ! i) ! j) f)))"
  unfolding clear_recorded [OF assms]
  by (cases is_frame_field)
     (simp_all add: delete_eval_info_def nth_samples_delete_sample_fields
        nth_samples_delete_frame_fields delete_fields_def)



theorem clear_removes_exactly_the_evaluation_fields_witness:
  "evaluations demo_recorded ''eval'' = Some (''predictions'', ''ground_truth'', demo_coco) \<and>
   handle_frame_field demo_recorded ''predictions'' = (''predictions'', False) \<and>
   handle_frame_field demo_recorded ''ground_truth'' = (''ground_truth'', False) \<and>
   (\<exists>c'. clear_detection_evaluation demo_recorded ''eval'' = (Inr (), c') \<and>
         evaluations c' ''eval'' = None \<and>
         evaluations c' ''other'' = Some (''predictions'', ''ground_truth'', demo_coco) \<and>
         field_dict (samples c' ! 0) ''eval_tp'' = None \<and>
         field_dict (samples c' ! 0) ''predictions.detections.eval_id'' = None \<and>
         field_dict (samples c' ! 0) ''other_tp'' = Some (IntValue 5) \<and>
         field_dict (samples c' ! 0) ''predictions'' = Some (Detections 1)) \<and>
   evaluations demo_video ''eval'' = Some (''frames.predictions'', ''frames.ground_truth'', demo_coco) \<and>
   handle_frame_field demo_video ''frames.predictions'' = (''predictions'', True) \<and>
   handle_frame_field demo_video ''frames.ground_truth'' = (''ground_truth'', True) \<and>
   (\<exists>c'. clear_detection_evaluation demo_video ''eval'' = (Inr (), c') \<and>
         evaluations c' ''eval'' = None \<and>
         field_dict (samples c' ! 0) ''eval_tp'' = None \<and>
         field_dict (samples c' ! 0) ''predictions.detections.eval_id'' = Some (Detections 9) \<and>
         (frames (samples c' ! 0) ! 0) ''predictions.detections.eval_id'' = None \<and>
         (frames (samples c' ! 0) ! 0) ''ground_truth.detections.eval_iou'' = None \<and>
         (frames (samples c' ! 0) ! 0) ''predictions'' = Some (Detections 1))"
proof -
  have h1: "evaluations demo_recorded ''eval'' = Some (''predictions'', ''ground_truth'', demo_coco)"
    by (simp add: demo_recorded_def)
  have h2: "handle_frame_field demo_recorded ''predictions'' = (''predictions'', False)"
    by (simp add: handle_frame_field_def demo_recorded_def)
  have h3: "handle_frame_field demo_recorded ''ground_truth'' = (''ground_truth'', False)"
    by (simp add: handle_frame_field_def demo_recorded_def)
  have v1: "evaluations demo_video ''eval'' =
      Some (''frames.predictions'', ''frames.ground_truth'', demo_coco)"
    by (simp add: demo_video_def)
  have v2: "handle_frame_field demo_video ''frames.predictions'' = (''predictions'', True)"
    by (simp add: handle_frame_field_def demo_video_def startswith_def)
  have v3: "handle_frame_field demo_video ''frames.ground_truth'' = (''ground_truth'', True)"
    by (simp add: handle_frame_field_def demo_video_def startswith_def)
  have image_case: "\<exists>c'. clear_detection_evaluation demo_recorded ''eval'' = (Inr (), c') \<and>
         evaluations c' ''eval'' = None \<and>
         evaluations c' ''other'' = Some (''predictions'', ''ground_truth'', demo_coco) \<and>
         field_dict (samples c' ! 0) ''eval_tp'' = None \<and>
         field_dict (samples c' ! 0) ''predictions.detections.eval_id'' = None \<and>
         field_dict (samples c' ! 0) ''other_tp'' = Some (IntValue 5) \<and>
         field_dict (samples c' ! 0) ''predictions'' = Some (Detections 1)"
  proof -
    from clear_removes_exactly_the_evaluation_fields [OF h1 h2 h3]
    obtain c' where c: "clear_detection_evaluation demo_recorded ''eval'' = (Inr (), c')"
      and ev: "evaluations c' = (evaluations demo_recorded)(''eval'' := None)"
      and fd: "\<And>i f. i < length (samples demo_recorded) \<Longrightarrow>
        field_dict (samples c' ! i) f =
          (if f \<in> {''eval'' @ ''_tp'', ''eval'' @ ''_fp'', ''eval'' @ ''_fn''} \<or>
              \<not> False \<and>
              f \<in> {''predictions'' @ ''.detections.'' @ ''eval'' @ ''_id'',
                   ''predictions'' @ ''.detections.'' @ ''eval'' @ ''_iou'',
                   ''ground_truth'' @ ''.detections.'' @ ''eval'' @ ''_id'',
                   ''ground_truth'' @ ''.detections.'' @ ''eval'' @ ''_iou''}
           then None else field_dict (samples demo_recorded ! i) f)"
      by blast
    have len: "0 < length (samples demo_recorded)"
      by (simp add: demo_recorded_def)
    have "evaluations c' ''eval'' = None"
      and "evaluations c' ''other'' = Some (''predictions'', ''ground_truth'', demo_coco)"
      by (simp_all add: ev demo_recorded_def)
    moreover have "field_dict (samples c' ! 0) ''eval_tp'' = None"
      and "field_dict (samples c' ! 0) ''predictions.detections.eval_id'' = None"
      and "field_dict (samples c' ! 0) ''other_tp'' = Some (IntValue 5)"
      and "field_dict (samples c' ! 0) ''predictions'' = Some (Detections 1)"
      by (simp_all add: fd [OF len] demo_recorded_def)
    ultimately show ?thesis using c by blast
  qed
  have video_case: "\<exists>c'. clear_detection_evaluation demo_video ''eval'' = (Inr (), c') \<and>
         evaluations c' ''eval'' = None \<and>
         field_dict (samples c' ! 0) ''eval_tp'' = None \<and>
         field_dict (samples c' ! 0) ''predictions.detections.eval_id'' = Some (Detections 9) \<and>
         (frames (samples c' ! 0) ! 0) ''predictions.detections.eval_id'' = None \<and>
         (frames (samples c' ! 0) ! 0) ''ground_truth.detections.eval_iou'' = None \<and>
         (frames (samples c' ! 0) ! 0) ''predictions'' = Some (Detections 1)"
  proof -
    from clear_removes_exactly_the_evaluation_fields [OF v1 v2 v3]
    obtain c' where c: "clear_detection_evaluation demo_video ''eval'' = (Inr (), c')"
      and ev: "evaluations c' = (evaluations demo_video)(''eval'' := None)"
      and fd: "\<And>i f. i < length (samples demo_video) \<Longrightarrow>
        field_dict (samples c' ! i) f =
          (if f \<in> {''eval'' @ ''_tp'', ''eval'' @ ''_fp'', ''eval'' @ ''_fn''} \<or>
              \<not> True \<and>
              f \<in> {''predictions'' @ ''.detections.'' @ ''eval'' @ ''_id'',
                   ''predictions'' @ ''.detections.'' @ ''eval'' @ ''_iou'',
                   ''ground_truth'' @ ''.detections.'' @ ''eval'' @ ''_id'',
                   ''ground_truth'' @ ''.detections.'' @ ''eval'' @ ''_iou''}
           then None else field_dict (samples demo_video ! i) f)"
      and fr: "\<And>i j f. i < length (samples demo_video) \<Longrightarrow>
           j < length (frames (samples demo_video ! i)) \<Longrightarrow>
           (frames (samples c' ! i) ! j) f =
             (if True \<and>
                 f \<in> {''predictions'' @ ''.detections.'' @ ''eval'' @ ''_id'',
                      ''predictions'' @ ''.detections.'' @ ''eval'' @ ''_iou'',
                      ''ground_truth'' @ ''.detections.'' @ ''eval'' @ ''_id'',
                      ''ground_truth'' @ ''.detections.'' @ ''eval'' @ ''_iou''}
              then None else (frames (samples demo_video ! i) ! j) f)"
      by blast
    have len: "0 < length (samples demo_video)"
      by (simp add: demo_video_def)
    have flen: "0 < length (frames (samples demo_video ! 0))"
      by (simp add: demo_video_def)
    have "evaluations c' ''eval'' = None"
      by (simp add: ev)
    moreover have "field_dict (samples c' ! 0) ''eval_tp'' = None"
      and "field_dict (samples c' ! 0) ''predictions.detections.eval_id'' = Some (Detections 9)"
      by (simp_all add: fd [OF len] demo_video_def)
    moreover have "(frames (samples c' ! 0) ! 0) ''predictions.detections.eval_id'' = None"
      and "(frames (samples c' ! 0) ! 0) ''ground_truth.detections.eval_iou'' = None"
      and "(frames (samples c' ! 0) ! 0) ''predictions'' = Some (Detections 1)"
      by (simp_all add: fr [OF len flen] demo_video_def)
    ultimately show ?thesis using c by blast
  qed
  from h1 h2 h3 image_case v1 v2 v3 video_case show ?thesis by (intro conjI)
qed

section \<open>Properties of the scan\<close>

lemma tally_matches_append:
  "tally_matches (xs @ ys) =
     (case (tally_matches xs, tally_matches ys) of
        ((tp, fp, fn), (tp', fp', fn')) \<Rightarrow> (tp + tp', fp + fp', fn + fn'))"
  by (simp add: tally_matches_counts)

lemma evaluate_images_accumulate:
  "evaluate_images eval_method gt_field pred_field eval_key images (m0, a, b, c) =
     (case evaluate_images eval_method gt_field pred_field eval_key images ([], 0, 0, 0) of
        Inl e \<Rightarrow> Inl e
      | Inr (m, tp, fp, fn) \<Rightarrow> Inr (m0 @ m, a + tp, b + fp, c + fn))"
proof (induction images arbitrary: m0 a b c)
  case Nil
  show ?case by simp
next
  case (Cons img images)
  show ?case
  proof (cases "getitem img gt_field")
    case (Inl e)
    then show ?thesis by simp
  next
    case gts: (Inr gts)
    show ?thesis
    proof (cases "getitem img pred_field")
      case (Inl e)
      with gts show ?thesis by simp
    next
      case preds: (Inr preds)
      show ?thesis
      proof (cases "eval_method gts preds eval_key")
        case (Inl e)
        with gts preds show ?thesis by simp
      next
        case (Inr image_matches)
        obtain tp fp fn where t: "tally_matches image_matches = (tp, fp, fn)"
          by (cases "tally_matches image_matches")
        have l: "evaluate_images eval_method gt_field pred_field eval_key (img # images) (m0, a, b, c) =
            evaluate_images eval_method gt_field pred_field eval_key images
              (m0 @ image_matches, a + tp, b + fp, c + fn)"
          by (simp add: gts preds Inr t)
        have r: "evaluate_images eval_method gt_field pred_field eval_key (img # images) ([], 0, 0, 0) =
            evaluate_images eval_method gt_field pred_field eval_key images
              (image_matches, tp, fp, fn)"
          by (simp add: gts preds Inr t)
        show ?thesis
          unfolding l r
          by (subst Cons.IH, subst (2) Cons.IH) (simp split: sum.splits prod.splits)
      qed
    qed
  qed
qed

lemma evaluate_images_totals:
  "evaluate_images eval_method gt_field pred_field eval_key images ([], 0, 0, 0) = Inr (m, tp, fp, fn)
   \<Longrightarrow> tally_matches m = (tp, fp, fn)"
proof (induction images arbitrary: m tp fp fn)
  case Nil
  then show ?case by (simp add: tally_matches_def)
next
  case (Cons img images)
  from Cons.prems obtain gts preds image_matches where
    g: "getitem img gt_field = Inr gts" and p: "getitem img pred_field = Inr preds"
    and s: "eval_method gts preds eval_key = Inr image_matches"
    by (auto split: sum.splits)
  obtain tp1 fp1 fn1 where t: "tally_matches image_matches = (tp1, fp1, fn1)"
    by (cases "tally_matches image_matches")
  from Cons.prems have "evaluate_images eval_method gt_field pred_field eval_key images
       (image_matches, tp1, fp1, fn1) = Inr (m, tp, fp, fn)"
    by (simp add: g p s t)
  then obtain m2 tp2 fp2 fn2 where
    r: "evaluate_images eval_method gt_field pred_field eval_key images ([], 0, 0, 0) = Inr (m2, tp2, fp2, fn2)"
    and e: "m = image_matches @ m2" "tp = tp1 + tp2" "fp = fp1 + fp2" "fn = fn1 + fn2"
    by (subst (asm) evaluate_images_accumulate) (auto split: sum.splits prod.splits)
  from Cons.IH [OF r] t e show ?case
    by (simp add: tally_matches_append)
qed


lemma save_sample_parts [simp]:
  "evaluations (save_sample i s c) = evaluations c"
  "media_type (save_sample i s c) = media_type c"
  "FRAMES_PREFIX (save_sample i s c) = FRAMES_PREFIX c"
  "length (samples (save_sample i s c)) = length (samples c)"
  by (simp_all add: save_sample_def)

lemma evaluate_samples_unnamed:
  "snd (evaluate_samples eval_method pf gt_field pred_field None items matches c) = c"
  by (induction items arbitrary: matches)
     (auto simp: Let_def split: sum.splits prod.splits)

lemma evaluate_samples_keeps:
  "evaluations (snd (evaluate_samples eval_method pf gt_field pred_field eval_key items matches c))
     = evaluations c \<and>
   media_type (snd (evaluate_samples eval_method pf gt_field pred_field eval_key items matches c))
     = media_type c \<and>
   FRAMES_PREFIX (snd (evaluate_samples eval_method pf gt_field pred_field eval_key items matches c))
     = FRAMES_PREFIX c \<and>
   length (samples (snd (evaluate_samples eval_method pf gt_field pred_field eval_key items matches c)))
     = length (samples c)"
proof (induction items arbitrary: matches c)
  case Nil
  show ?case by simp
next
  case (Cons item items)
  obtain i s where item: "item = (i, s)" by (cases item)
  show ?case
  proof (cases "evaluate_images eval_method gt_field pred_field eval_key
                  (if pf then frames s else [field_dict s]) (matches, 0, 0, 0)")
    case (Inl e)
    then show ?thesis by (simp add: item)
  next
    case (Inr r)
    obtain m tp fp fn where r: "r = (m, tp, fp, fn)" by (cases r)
    show ?thesis
    proof (cases eval_key)
      case None
      with Inr r Cons.IH [of m c] show ?thesis by (simp add: item)
    next
      case (Some k)
      with Inr r Cons.IH [of m "save_sample i
          (s\<lparr>field_dict := (field_dict s)
               (k @ ''_tp'' \<mapsto> IntValue tp, k @ ''_fp'' \<mapsto> IntValue fp,
                k @ ''_fn'' \<mapsto> IntValue fn)\<rparr>) c"]
      show ?thesis by (simp add: item)
    qed
  qed
qed

lemma evaluate_samples_append:
  "evaluate_samples eval_method pf gt_field pred_field eval_key (xs @ ys) matches c =
     (case evaluate_samples eval_method pf gt_field pred_field eval_key xs matches c of
        (Inl e, c') \<Rightarrow> (Inl e, c')
      | (Inr matches', c') \<Rightarrow>
          evaluate_samples eval_method pf gt_field pred_field eval_key ys matches' c')"
proof (cases eval_key)
  case None
  show ?thesis
    unfolding None
  proof (induction xs arbitrary: matches c)
    case Nil
    show ?case by simp
  next
    case (Cons item xs)
    obtain i s where item: "item = (i, s)" by (cases item)
    show ?case
    proof (cases "evaluate_images eval_method gt_field pred_field None
                    (if pf then frames s else [field_dict s]) (matches, 0, 0, 0)")
      case (Inl e)
      then show ?thesis by (simp add: item)
    next
      case (Inr r)
      obtain m tp fp fn where r: "r = (m, tp, fp, fn)" by (cases r)
      with Inr show ?thesis by (simp add: item Cons.IH)
    qed
  qed
next
  case (Some k)
  show ?thesis
    unfolding Some
  proof (induction xs arbitrary: matches c)
    case Nil
    show ?case by simp
  next
    case (Cons item xs)
    obtain i s where item: "item = (i, s)" by (cases item)
    show ?case
    proof (cases "evaluate_images eval_method gt_field pred_field (Some k)
                    (if pf then frames s else [field_dict s]) (matches, 0, 0, 0)")
      case (Inl e)
      then show ?thesis by (simp add: item)
    next
      case (Inr r)
      obtain m tp fp fn where r: "r = (m, tp, fp, fn)" by (cases r)
      with Inr show ?thesis by (simp add: item Cons.IH)
    qed
  qed
qed


lemma evaluate_samples_named:
  assumes "evaluate_samples eval_method pf gt_field pred_field (Some k) items matches c =
             (Inr matches', c')"
    and "distinct (map fst items)"
    and "\<forall>i \<in> fst ` set items. i < length (samples c)"
  shows "(\<forall>(i, s) \<in> set items. \<exists>m tp fp fn.
            evaluate_images eval_method gt_field pred_field (Some k)
              (if pf then frames s else [field_dict s]) ([], 0, 0, 0) = Inr (m, tp, fp, fn) \<and>
            samples c' ! i =
              s\<lparr>field_dict := (field_dict s)
                   (k @ ''_tp'' \<mapsto> IntValue tp, k @ ''_fp'' \<mapsto> IntValue fp,
                    k @ ''_fn'' \<mapsto> IntValue fn)\<rparr>) \<and>
         (\<forall>j. j \<notin> fst ` set items \<longrightarrow> samples c' ! j = samples c ! j)"
  using assms
proof (induction items arbitrary: matches c)
  case Nil
  then show ?case by simp
next
  case (Cons item items)
  obtain i s where item: "item = (i, s)" by (cases item)
  let ?images = "if pf then frames s else [field_dict s]"
  from Cons.prems(1) obtain m tp fp fn where
    im: "evaluate_images eval_method gt_field pred_field (Some k) ?images (matches, 0, 0, 0)
           = Inr (m, tp, fp, fn)"
    by (cases "evaluate_images eval_method gt_field pred_field (Some k) ?images (matches, 0, 0, 0)")
       (auto simp: item)
  let ?s' = "s\<lparr>field_dict := (field_dict s)
                 (k @ ''_tp'' \<mapsto> IntValue tp, k @ ''_fp'' \<mapsto> IntValue fp,
                  k @ ''_fn'' \<mapsto> IntValue fn)\<rparr>"
  let ?c1 = "save_sample i ?s' c"
  from Cons.prems(1) im have rest:
    "evaluate_samples eval_method pf gt_field pred_field (Some k) items m ?c1 = (Inr matches', c')"
    by (simp add: item)
  from im obtain m2 where
    im0: "evaluate_images eval_method gt_field pred_field (Some k) ?images ([], 0, 0, 0)
            = Inr (m2, tp, fp, fn)"
    by (subst (asm) evaluate_images_accumulate) (auto split: sum.splits prod.splits)
  from Cons.prems(2) have d: "distinct (map fst items)" and ni: "i \<notin> fst ` set items"
    by (simp_all add: item)
  from Cons.prems(3) have il: "i < length (samples c)"
    and b: "\<forall>j \<in> fst ` set items. j < length (samples ?c1)"
    by (simp_all add: item)
  from Cons.IH [OF rest d b]
  have ih1: "\<forall>(j, t) \<in> set items. \<exists>m tp fp fn.
            evaluate_images eval_method gt_field pred_field (Some k)
              (if pf then frames t else [field_dict t]) ([], 0, 0, 0) = Inr (m, tp, fp, fn) \<and>
            samples c' ! j =
              t\<lparr>field_dict := (field_dict t)
                   (k @ ''_tp'' \<mapsto> IntValue tp, k @ ''_fp'' \<mapsto> IntValue fp,
                    k @ ''_fn'' \<mapsto> IntValue fn)\<rparr>"
    and ih2: "\<forall>j. j \<notin> fst ` set items \<longrightarrow> samples c' ! j = samples ?c1 ! j"
    by blast+
  from ih2 ni il have here: "samples c' ! i = ?s'"
    by (simp add: save_sample_def)
  have others: "samples c' ! j = samples c ! j" if "j \<notin> fst ` set (item # items)" for j
  proof -
    from that have "j \<noteq> i" and "j \<notin> fst ` set items" by (simp_all add: item)
    with ih2 show ?thesis by (simp add: save_sample_def)
  qed
  show ?case
  proof (intro conjI ballI allI impI)
    fix x
    assume x: "x \<in> set (item # items)"
    show "case x of (i, s) \<Rightarrow> \<exists>m tp fp fn.
            evaluate_images eval_method gt_field pred_field (Some k)
              (if pf then frames s else [field_dict s]) ([], 0, 0, 0) = Inr (m, tp, fp, fn) \<and>
            samples c' ! i =
              s\<lparr>field_dict := (field_dict s)
                   (k @ ''_tp'' \<mapsto> IntValue tp, k @ ''_fp'' \<mapsto> IntValue fp,
                    k @ ''_fn'' \<mapsto> IntValue fn)\<rparr>"
    proof (cases "x = item")
      case True
      from im0 here show ?thesis
        unfolding True item prod.case by blast
    next
      case False
      with x have "x \<in> set items" by simp
      with ih1 show ?thesis by (rule bspec)
    qed
  next
    fix j
    assume "j \<notin> fst ` set (item # items)"
    then show "samples c' ! j = samples c ! j" by (rule others)
  qed
qed

lemma select_fields_items:
  "distinct (map fst (select_fields names c))"
  "fst ` set (select_fields names c) = {..<length (samples c)}"
  "i < length (samples c) \<Longrightarrow> (i, samples c ! i) \<in> set (select_fields names c)"
proof -
  have m: "map fst (select_fields names c) = [0..<length (samples c)]"
    by (simp add: select_fields_def)
  show "distinct (map fst (select_fields names c))"
    by (simp add: m)
  have "fst ` set (select_fields names c) = set (map fst (select_fields names c))"
    by simp
  also have "\<dots> = {..<length (samples c)}"
    unfolding m by auto
  finally show "fst ` set (select_fields names c) = {..<length (samples c)}" .
  show "(i, samples c ! i) \<in> set (select_fields names c)" if "i < length (samples c)"
    using that by (auto simp: select_fields_def set_zip intro!: exI [of _ i])
qed

section \<open>Properties of the evaluation\<close>

lemma demo_scan:
  "evaluate_samples demo_strategy False ''ground_truth'' ''predictions'' (Some ''eval'')
     (select_fields [''ground_truth'', ''predictions''] demo_collection) [] demo_collection =
   (Inr [(Some ''cat'', Some ''cat''), (Some ''dog'', None), (None, Some ''cat'')],
    demo_collection\<lparr>samples :=
      [\<lparr>field_dict = [''ground_truth'' \<mapsto> Detections 1, ''predictions'' \<mapsto> Detections 1,
                       ''eval_tp'' \<mapsto> IntValue 1, ''eval_fp'' \<mapsto> IntValue 0, ''eval_fn'' \<mapsto> IntValue 0],
        frames = []\<rparr>,
       \<lparr>field_dict = [''ground_truth'' \<mapsto> Detections 2, ''predictions'' \<mapsto> Detections 3,
                       ''eval_tp'' \<mapsto> IntValue 0, ''eval_fp'' \<mapsto> IntValue 1, ''eval_fn'' \<mapsto> IntValue 1],
        frames = []\<rparr>]\<rparr>)"
  by (simp add: select_fields_def demo_collection_def getitem_def demo_strategy_def
      tally_matches_def save_sample_def upt_rec)


lemma evaluate_detections_unnamed:
  "snd (evaluate_detections ext c pred_field gt_field None cls miss method config kwargs) = c"
proof (cases "parse_config (objects ext) (COCOEvaluationConfig ext) config method kwargs")
  case (Inl e)
  then show ?thesis by (simp add: evaluate_detections_def)
next
  case cfg: (Inr cfg)
  show ?thesis
  proof (cases "build ext cfg")
    case (Inl e)
    with cfg show ?thesis by (simp add: evaluate_detections_def)
  next
    case (Inr eval_method)
    let ?pf = "media_type c = VIDEO \<and> startswith pred_field (FRAMES_PREFIX c)"
    obtain r c' where scan: "evaluate_samples eval_method ?pf gt_field pred_field None
         (select_fields [gt_field, pred_field] c) [] c = (r, c')"
      by (cases "evaluate_samples eval_method ?pf gt_field pred_field None
         (select_fields [gt_field, pred_field] c) [] c")
    from evaluate_samples_unnamed [of eval_method ?pf gt_field pred_field
        "select_fields [gt_field, pred_field] c" "[]" c] scan
    have "c' = c" by simp
    with cfg Inr scan show ?thesis
      by (cases r) (simp_all add: evaluate_detections_def)
  qed
qed

lemma evaluate_detections_named:
  assumes "parse_config (objects ext) (COCOEvaluationConfig ext) config method kwargs = Inr cfg"
    and "build ext cfg = Inr eval_method"
    and "evaluate_samples eval_method
           (media_type c = VIDEO \<and> startswith pred_field (FRAMES_PREFIX c))
           gt_field pred_field (Some k) (select_fields [gt_field, pred_field] c) [] c = (r, c')"
  shows "evaluate_detections ext c pred_field gt_field (Some k) cls miss method config kwargs =
     (case r of
        Inl e \<Rightarrow> (Inl e, c')
      | Inr matches \<Rightarrow>
          (DetectionResults_init matches cls miss, record_eval_info c' k pred_field gt_field cfg))"
  using assms by (cases r) (simp_all add: evaluate_detections_def)

text \<open>
  Claim C6. With no \<^verbatim>\<open>eval_key\<close> the evaluation persists nothing: whatever its
  outcome, the collection afterwards is the collection before, so no count is written,
  no sample is saved and no evaluation is recorded. With an \<^verbatim>\<open>eval_key\<close>, when the scan
  runs to its end, every sample of the collection has been saved with the three fields
  \<^verbatim>\<open><eval_key>_tp\<close>, \<^verbatim>\<open><eval_key>_fp\<close>, \<^verbatim>\<open><eval_key>_fn\<close> assigned: their values are the
  totals that the inner loop computes over the sample's images (the sample itself, or
  its frames when frames are processed), which are the tally of all matches of the
  sample; the number of samples is the same.
\<close>

theorem evaluate_persists_only_with_eval_key:
  "snd (evaluate_detections ext c pred_field gt_field None cls miss method config kwargs) = c \<and>
   (parse_config (objects ext) (COCOEvaluationConfig ext) config method kwargs = Inr cfg \<longrightarrow>
    build ext cfg = Inr eval_method \<longrightarrow>
    fst (evaluate_samples eval_method
           (media_type c = VIDEO \<and> startswith pred_field (FRAMES_PREFIX c))
           gt_field pred_field (Some k) (select_fields [gt_field, pred_field] c) [] c) = Inr matches \<longrightarrow>
    length (samples (snd (evaluate_detections ext c pred_field gt_field (Some k) cls miss
                            method config kwargs))) = length (samples c) \<and>
    (\<forall>i < length (samples c). \<exists>m tp fp fn.
       evaluate_images eval_method gt_field pred_field (Some k)
         (if media_type c = VIDEO \<and> startswith pred_field (FRAMES_PREFIX c)
          then frames (samples c ! i) else [field_dict (samples c ! i)]) ([], 0, 0, 0)
         = Inr (m, tp, fp, fn) \<and>
       tally_matches m = (tp, fp, fn) \<and>
       samples (snd (evaluate_detections ext c pred_field gt_field (Some k) cls miss
                       method config kwargs)) ! i =
         (samples c ! i)\<lparr>field_dict := (field_dict (samples c ! i))
            (k @ ''_tp'' \<mapsto> IntValue tp, k @ ''_fp'' \<mapsto> IntValue fp,
             k @ ''_fn'' \<mapsto> IntValue fn)\<rparr>))"
proof (intro conjI impI)
  show "snd (evaluate_detections ext c pred_field gt_field None cls miss method config kwargs) = c"
    by (rule evaluate_detections_unnamed)
next
  let ?pf = "media_type c = VIDEO \<and> startswith pred_field (FRAMES_PREFIX c)"
  let ?items = "select_fields [gt_field, pred_field] c"
  let ?c'' = "snd (evaluate_detections ext c pred_field gt_field (Some k) cls miss method config kwargs)"
  assume cfg: "parse_config (objects ext) (COCOEvaluationConfig ext) config method kwargs = Inr cfg"
    and bld: "build ext cfg = Inr eval_method"
    and ok: "fst (evaluate_samples eval_method ?pf gt_field pred_field (Some k) ?items [] c) = Inr matches"
  obtain c' where scan:
    "evaluate_samples eval_method ?pf gt_field pred_field (Some k) ?items [] c = (Inr matches, c')"
    using ok by (cases "evaluate_samples eval_method ?pf gt_field pred_field (Some k) ?items [] c") simp
  from evaluate_detections_named [OF cfg bld scan]
  have s: "samples ?c'' = samples c'"
    by (simp add: record_eval_info_def)
  from evaluate_samples_keeps [of eval_method ?pf gt_field pred_field "Some k" ?items "[]" c] scan
  have len: "length (samples c') = length (samples c)" by simp
  show "length (samples ?c'') = length (samples c)"
    by (simp add: s len)
  have b: "\<forall>i \<in> fst ` set ?items. i < length (samples c)"
    by (simp add: select_fields_items(2))
  note named = evaluate_samples_named [OF scan select_fields_items(1) b]
  show "\<forall>i < length (samples c). \<exists>m tp fp fn.
       evaluate_images eval_method gt_field pred_field (Some k)
         (if ?pf then frames (samples c ! i) else [field_dict (samples c ! i)]) ([], 0, 0, 0)
         = Inr (m, tp, fp, fn) \<and>
       tally_matches m = (tp, fp, fn) \<and>
       samples ?c'' ! i =
         (samples c ! i)\<lparr>field_dict := (field_dict (samples c ! i))
            (k @ ''_tp'' \<mapsto> IntValue tp, k @ ''_fp'' \<mapsto> IntValue fp,
             k @ ''_fn'' \<mapsto> IntValue fn)\<rparr>"
  proof (intro allI impI)
    fix i
    assume "i < length (samples c)"
    then have "(i, samples c ! i) \<in> set ?items"
      by (rule select_fields_items(3))
    with named obtain m tp fp fn where
      im: "evaluate_images eval_method gt_field pred_field (Some k)
         (if ?pf then frames (samples c ! i) else [field_dict (samples c ! i)]) ([], 0, 0, 0)
         = Inr (m, tp, fp, fn)"
      and w: "samples c' ! i =
         (samples c ! i)\<lparr>field_dict := (field_dict (samples c ! i))
            (k @ ''_tp'' \<mapsto> IntValue tp, k @ ''_fp'' \<mapsto> IntValue fp,
             k @ ''_fn'' \<mapsto> IntValue fn)\<rparr>"
      by blast
    from im have "tally_matches m = (tp, fp, fn)"
      by (rule evaluate_images_totals)
    with im w show "\<exists>m tp fp fn.
       evaluate_images eval_method gt_field pred_field (Some k)
         (if ?pf then frames (samples c ! i) else [field_dict (samples c ! i)]) ([], 0, 0, 0)
         = Inr (m, tp, fp, fn) \<and>
       tally_matches m = (tp, fp, fn) \<and>
       samples ?c'' ! i =
         (samples c ! i)\<lparr>field_dict := (field_dict (samples c ! i))
            (k @ ''_tp'' \<mapsto> IntValue tp, k @ ''_fp'' \<mapsto> IntValue fp,
             k @ ''_fn'' \<mapsto> IntValue fn)\<rparr>"
      unfolding s by blast
  qed
qed


lemma demo_resolution:
  "parse_config (objects demo_externals) (COCOEvaluationConfig demo_externals) None None [] = Inr demo_coco"
  "build demo_externals demo_coco = Inr demo_strategy"
  by (simp_all add: parse_config_def get_default_config_def demo_externals_def)

lemma demo_abstract_resolution:
  "parse_config (objects demo_abstract) (COCOEvaluationConfig demo_abstract) None None [] = Inr demo_coco"
  "build demo_abstract demo_coco = Inr DetectionEvaluationMethod_evaluate_image"
  by (simp_all add: parse_config_def get_default_config_def demo_abstract_def)

lemma demo_image_mode:
  "(media_type demo_collection = VIDEO \<and>
    startswith ''predictions'' (FRAMES_PREFIX demo_collection)) = False"
  by (simp add: demo_collection_def)

theorem evaluate_persists_only_with_eval_key_witness:
  "snd (evaluate_detections demo_externals demo_collection ''predictions'' ''ground_truth''
          None None ''none'' None None []) = demo_collection \<and>
   parse_config (objects demo_externals) (COCOEvaluationConfig demo_externals) None None [] = Inr demo_coco \<and>
   build demo_externals demo_coco = Inr demo_strategy \<and>
   fst (evaluate_samples demo_strategy False ''ground_truth'' ''predictions'' (Some ''eval'')
          (select_fields [''ground_truth'', ''predictions''] demo_collection) [] demo_collection) =
     Inr [(Some ''cat'', Some ''cat''), (Some ''dog'', None), (None, Some ''cat'')] \<and>
   field_dict (samples (snd (evaluate_detections demo_externals demo_collection ''predictions''
       ''ground_truth'' (Some ''eval'') None ''none'' None None [])) ! 1) ''eval_tp'' = Some (IntValue 0) \<and>
   field_dict (samples (snd (evaluate_detections demo_externals demo_collection ''predictions''
       ''ground_truth'' (Some ''eval'') None ''none'' None None [])) ! 1) ''eval_fp'' = Some (IntValue 1) \<and>
   field_dict (samples (snd (evaluate_detections demo_externals demo_collection ''predictions''
       ''ground_truth'' (Some ''eval'') None ''none'' None None [])) ! 1) ''eval_fn'' = Some (IntValue 1)"
proof -
  let ?c'' = "snd (evaluate_detections demo_externals demo_collection ''predictions''
       ''ground_truth'' (Some ''eval'') None ''none'' None None [])"
  note t = evaluate_persists_only_with_eval_key
    [of demo_externals demo_collection "''predictions''" "''ground_truth''" None "''none''"
        None None "[]" demo_coco demo_strategy "''eval''"
        "[(Some ''cat'', Some ''cat''), (Some ''dog'', None), (None, Some ''cat'')]",
     unfolded demo_image_mode if_False]
  have scan: "fst (evaluate_samples demo_strategy False ''ground_truth'' ''predictions'' (Some ''eval'')
          (select_fields [''ground_truth'', ''predictions''] demo_collection) [] demo_collection) =
     Inr [(Some ''cat'', Some ''cat''), (Some ''dog'', None), (None, Some ''cat'')]"
    by (simp add: demo_scan)
  from t have unnamed: "snd (evaluate_detections demo_externals demo_collection ''predictions''
       ''ground_truth'' None None ''none'' None None []) = demo_collection"
    by (rule conjunct1)
  have one: "1 < length (samples demo_collection)"
    by (simp add: demo_collection_def)
  from t demo_resolution(1,2) scan one
  obtain m tp fp fn where
    im: "evaluate_images demo_strategy ''ground_truth'' ''predictions'' (Some ''eval'')
           [field_dict (samples demo_collection ! 1)] ([], 0, 0, 0) = Inr (m, tp, fp, fn)"
    and w: "samples ?c'' ! 1 =
         (samples demo_collection ! 1)\<lparr>field_dict := (field_dict (samples demo_collection ! 1))
            (''eval'' @ ''_tp'' \<mapsto> IntValue tp, ''eval'' @ ''_fp'' \<mapsto> IntValue fp,
             ''eval'' @ ''_fn'' \<mapsto> IntValue fn)\<rparr>"
    by blast
  have "evaluate_images demo_strategy ''ground_truth'' ''predictions'' (Some ''eval'')
           [field_dict (samples demo_collection ! 1)] ([], 0, 0, 0) =
        Inr ([(Some ''dog'', None), (None, Some ''cat'')], 0, 1, 1)"
    by (simp add: demo_collection_def getitem_def demo_strategy_def tally_matches_def)
  with im have v: "tp = 0" "fp = 1" "fn = 1" by simp_all
  have "field_dict (samples ?c'' ! 1) ''eval_tp'' = Some (IntValue 0)"
    and "field_dict (samples ?c'' ! 1) ''eval_fp'' = Some (IntValue 1)"
    and "field_dict (samples ?c'' ! 1) ''eval_fn'' = Some (IntValue 1)"
    unfolding w v by simp_all
  with unnamed demo_resolution(1,2) scan show ?thesis by (intro conjI)
qed


text \<open>
  Claim C7, amended. During a named run the scan never records an evaluation: after
  any number \<open>n\<close> of samples the recorded evaluations are those the collection had when
  the run started (so no entry for the \<^verbatim>\<open>eval_key\<close> exists then, unless one was recorded
  before the run), and the whole scan is the scan of the first \<open>n\<close> samples carried on
  from that state. A run whose scan is aborted by an error ends with the recorded
  evaluations unchanged. A run whose scan completes writes the entry
  \<^verbatim>\<open>(pred_field, gt_field, config)\<close> under the key once, after the last sample.
\<close>

theorem eval_info_written_only_after_scan:
  "evaluations (snd (evaluate_samples eval_method
       (media_type c = VIDEO \<and> startswith pred_field (FRAMES_PREFIX c)) gt_field pred_field (Some k)
       (take n (select_fields [gt_field, pred_field] c)) [] c)) = evaluations c \<and>
   evaluate_samples eval_method
       (media_type c = VIDEO \<and> startswith pred_field (FRAMES_PREFIX c)) gt_field pred_field (Some k)
       (select_fields [gt_field, pred_field] c) [] c =
     (case evaluate_samples eval_method
             (media_type c = VIDEO \<and> startswith pred_field (FRAMES_PREFIX c)) gt_field pred_field
             (Some k) (take n (select_fields [gt_field, pred_field] c)) [] c of
        (Inl e, c') \<Rightarrow> (Inl e, c')
      | (Inr matches', c') \<Rightarrow>
          evaluate_samples eval_method
            (media_type c = VIDEO \<and> startswith pred_field (FRAMES_PREFIX c)) gt_field pred_field
            (Some k) (drop n (select_fields [gt_field, pred_field] c)) matches' c') \<and>
   (parse_config (objects ext) (COCOEvaluationConfig ext) config method kwargs = Inr cfg \<longrightarrow>
    build ext cfg = Inr eval_method \<longrightarrow>
      (\<forall>e. fst (evaluate_samples eval_method
                  (media_type c = VIDEO \<and> startswith pred_field (FRAMES_PREFIX c))
                  gt_field pred_field (Some k) (select_fields [gt_field, pred_field] c) [] c) = Inl e \<longrightarrow>
           fst (evaluate_detections ext c pred_field gt_field (Some k) cls miss method config kwargs)
             = Inl e \<and>
           evaluations (snd (evaluate_detections ext c pred_field gt_field (Some k) cls miss
                               method config kwargs)) = evaluations c) \<and>
      (\<forall>matches. fst (evaluate_samples eval_method
                  (media_type c = VIDEO \<and> startswith pred_field (FRAMES_PREFIX c))
                  gt_field pred_field (Some k) (select_fields [gt_field, pred_field] c) [] c)
                  = Inr matches \<longrightarrow>
           evaluations (snd (evaluate_detections ext c pred_field gt_field (Some k) cls miss
                               method config kwargs)) =
             (evaluations c)(k \<mapsto> (pred_field, gt_field, cfg))))"
proof (intro conjI impI allI)
  let ?pf = "media_type c = VIDEO \<and> startswith pred_field (FRAMES_PREFIX c)"
  let ?items = "select_fields [gt_field, pred_field] c"
  let ?scan = "evaluate_samples eval_method ?pf gt_field pred_field (Some k) ?items [] c"
  show "evaluations (snd (evaluate_samples eval_method ?pf gt_field pred_field (Some k)
       (take n ?items) [] c)) = evaluations c"
    using evaluate_samples_keeps by (rule conjunct1)
  show "?scan =
     (case evaluate_samples eval_method ?pf gt_field pred_field (Some k) (take n ?items) [] c of
        (Inl e, c') \<Rightarrow> (Inl e, c')
      | (Inr matches', c') \<Rightarrow>
          evaluate_samples eval_method ?pf gt_field pred_field (Some k) (drop n ?items) matches' c')"
    using evaluate_samples_append
      [of eval_method ?pf gt_field pred_field "Some k" "take n ?items" "drop n ?items" "[]" c]
    by simp
  have keeps: "evaluations (snd ?scan) = evaluations c"
    using evaluate_samples_keeps by (rule conjunct1)
  {
    fix e
    assume cfg: "parse_config (objects ext) (COCOEvaluationConfig ext) config method kwargs = Inr cfg"
      and bld: "build ext cfg = Inr eval_method"
      and ab: "fst ?scan = Inl e"
    obtain c' where scan: "?scan = (Inl e, c')"
      using ab by (cases ?scan) simp
    from evaluate_detections_named [OF cfg bld scan]
    have r: "evaluate_detections ext c pred_field gt_field (Some k) cls miss method config kwargs
               = (Inl e, c')"
      by simp
    from r show "fst (evaluate_detections ext c pred_field gt_field (Some k) cls miss method
                        config kwargs) = Inl e"
      by simp
    from r keeps scan
    show "evaluations (snd (evaluate_detections ext c pred_field gt_field (Some k) cls miss
                              method config kwargs)) = evaluations c"
      by simp
  }
  {
    fix matches
    assume cfg: "parse_config (objects ext) (COCOEvaluationConfig ext) config method kwargs = Inr cfg"
      and bld: "build ext cfg = Inr eval_method"
      and ok: "fst ?scan = Inr matches"
    obtain c' where scan: "?scan = (Inr matches, c')"
      using ok by (cases ?scan) simp
    from evaluate_detections_named [OF cfg bld scan] keeps scan
    show "evaluations (snd (evaluate_detections ext c pred_field gt_field (Some k) cls miss
                              method config kwargs)) =
            (evaluations c)(k \<mapsto> (pred_field, gt_field, cfg))"
      by (simp add: record_eval_info_def)
  }
qed


lemma demo_abstract_scan:
  "fst (evaluate_samples DetectionEvaluationMethod_evaluate_image False ''ground_truth''
          ''predictions'' (Some ''eval'')
          (select_fields [''ground_truth'', ''predictions''] demo_collection) [] demo_collection) =
     Inl (NotImplementedError ''subclass must implement evaluate_image'')"
  by (simp add: select_fields_def demo_collection_def getitem_def
      DetectionEvaluationMethod_evaluate_image_def upt_rec)

theorem eval_info_written_only_after_scan_witness:
  "parse_config (objects demo_externals) (COCOEvaluationConfig demo_externals) None None [] = Inr demo_coco \<and>
   build demo_externals demo_coco = Inr demo_strategy \<and>
   evaluations (snd (evaluate_samples demo_strategy False ''ground_truth'' ''predictions''
       (Some ''eval'') (take 1 (select_fields [''ground_truth'', ''predictions''] demo_collection))
       [] demo_collection)) ''eval'' = None \<and>
   fst (evaluate_samples demo_strategy False ''ground_truth'' ''predictions'' (Some ''eval'')
          (select_fields [''ground_truth'', ''predictions''] demo_collection) [] demo_collection) =
     Inr [(Some ''cat'', Some ''cat''), (Some ''dog'', None), (None, Some ''cat'')] \<and>
   evaluations (snd (evaluate_detections demo_externals demo_collection ''predictions''
       ''ground_truth'' (Some ''eval'') None ''none'' None None [])) ''eval'' =
     Some (''predictions'', ''ground_truth'', demo_coco) \<and>
   parse_config (objects demo_abstract) (COCOEvaluationConfig demo_abstract) None None [] = Inr demo_coco \<and>
   build demo_abstract demo_coco = Inr DetectionEvaluationMethod_evaluate_image \<and>
   fst (evaluate_samples DetectionEvaluationMethod_evaluate_image False ''ground_truth''
          ''predictions'' (Some ''eval'')
          (select_fields [''ground_truth'', ''predictions''] demo_collection) [] demo_collection) =
     Inl (NotImplementedError ''subclass must implement evaluate_image'') \<and>
   fst (evaluate_detections demo_abstract demo_collection ''predictions''
       ''ground_truth'' (Some ''eval'') None ''none'' None None []) =
     Inl (NotImplementedError ''subclass must implement evaluate_image'') \<and>
   evaluations (snd (evaluate_detections demo_abstract demo_collection ''predictions''
       ''ground_truth'' (Some ''eval'') None ''none'' None None [])) ''eval'' = None"
proof -
  note t1 = eval_info_written_only_after_scan
    [of demo_strategy demo_collection "''predictions''" "''ground_truth''" "''eval''" 1
        demo_externals None None "[]" demo_coco None "''none''",
     unfolded demo_image_mode]
  note t2 = eval_info_written_only_after_scan
    [of DetectionEvaluationMethod_evaluate_image demo_collection "''predictions''"
        "''ground_truth''" "''eval''" 1 demo_abstract None None "[]" demo_coco None "''none''",
     unfolded demo_image_mode]
  have none: "evaluations demo_collection ''eval'' = None"
    by (simp add: demo_collection_def)
  have scan: "fst (evaluate_samples demo_strategy False ''ground_truth'' ''predictions'' (Some ''eval'')
          (select_fields [''ground_truth'', ''predictions''] demo_collection) [] demo_collection) =
     Inr [(Some ''cat'', Some ''cat''), (Some ''dog'', None), (None, Some ''cat'')]"
    by (simp add: demo_scan)
  from t1 have "evaluations (snd (evaluate_samples demo_strategy False ''ground_truth''
       ''predictions'' (Some ''eval'')
       (take 1 (select_fields [''ground_truth'', ''predictions''] demo_collection))
       [] demo_collection)) = evaluations demo_collection"
    by (rule conjunct1)
  with none have mid: "evaluations (snd (evaluate_samples demo_strategy False ''ground_truth''
       ''predictions'' (Some ''eval'')
       (take 1 (select_fields [''ground_truth'', ''predictions''] demo_collection))
       [] demo_collection)) ''eval'' = None"
    by simp
  from t1 demo_resolution(1,2) scan
  have "evaluations (snd (evaluate_detections demo_externals demo_collection ''predictions''
       ''ground_truth'' (Some ''eval'') None ''none'' None None [])) =
     (evaluations demo_collection)(''eval'' \<mapsto> (''predictions'', ''ground_truth'', demo_coco))"
    by blast
  then have fin: "evaluations (snd (evaluate_detections demo_externals demo_collection
       ''predictions'' ''ground_truth'' (Some ''eval'') None ''none'' None None [])) ''eval'' =
     Some (''predictions'', ''ground_truth'', demo_coco)"
    by simp
  from t2 demo_abstract_resolution demo_abstract_scan
  have ab: "fst (evaluate_detections demo_abstract demo_collection ''predictions''
       ''ground_truth'' (Some ''eval'') None ''none'' None None []) =
     Inl (NotImplementedError ''subclass must implement evaluate_image'') \<and>
     evaluations (snd (evaluate_detections demo_abstract demo_collection ''predictions''
       ''ground_truth'' (Some ''eval'') None ''none'' None None [])) = evaluations demo_collection"
    by blast
  with none have ab2: "evaluations (snd (evaluate_detections demo_abstract demo_collection
       ''predictions'' ''ground_truth'' (Some ''eval'') None ''none'' None None [])) ''eval'' = None"
    by simp
  from demo_resolution mid scan fin demo_abstract_resolution demo_abstract_scan
    ab [THEN conjunct1] ab2
  show ?thesis by (intro conjI)
qed

text \<open>
  Claim C7, as stated: at every intermediate step of a named run no entry for the
  \<^verbatim>\<open>eval_key\<close> exists. That fails when the key was recorded by an earlier run: on the
  collection \<open>demo_recorded\<close>, which has an entry under \<^verbatim>\<open>eval\<close>, a run with that key has
  saved the first of the two samples and the entry is there.
\<close>

theorem eval_info_exists_during_rerun:
  "parse_config (objects demo_externals) (COCOEvaluationConfig demo_externals) None None [] = Inr demo_coco \<and>
   build demo_externals demo_coco = Inr demo_strategy \<and>
   length (select_fields [''ground_truth'', ''predictions''] demo_recorded) = 2 \<and>
   evaluations (snd (evaluate_samples demo_strategy
       (media_type demo_recorded = VIDEO \<and> startswith ''predictions'' (FRAMES_PREFIX demo_recorded))
       ''ground_truth'' ''predictions'' (Some ''eval'')
       (take 1 (select_fields [''ground_truth'', ''predictions''] demo_recorded))
       [] demo_recorded)) ''eval'' = Some (''predictions'', ''ground_truth'', demo_coco)"
proof -
  have "evaluations (snd (evaluate_samples demo_strategy
       (media_type demo_recorded = VIDEO \<and> startswith ''predictions'' (FRAMES_PREFIX demo_recorded))
       ''ground_truth'' ''predictions'' (Some ''eval'')
       (take 1 (select_fields [''ground_truth'', ''predictions''] demo_recorded))
       [] demo_recorded)) = evaluations demo_recorded"
    using evaluate_samples_keeps by (rule conjunct1)
  moreover have "evaluations demo_recorded ''eval'' = Some (''predictions'', ''ground_truth'', demo_coco)"
    by (simp add: demo_recorded_def)
  moreover have "length (select_fields [''ground_truth'', ''predictions''] demo_recorded) = 2"
    by (simp add: select_fields_def demo_recorded_def)
  ultimately show ?thesis
    using demo_resolution(1,2) by simp
qed

end
